theory Spec2Isabelle
  imports Main "HOL-Library.Word" "HOL-Library.Sublist"
begin

chapter \<open>NeerVaani: schemas, submit handlers and audio playback\<close>

section \<open>JavaScript strings\<close>

text \<open>
  A JavaScript string is a sequence of UTF-16 code units; \<open>length\<close> counts code units, as
  \<^verbatim>\<open>String.prototype.length\<close> does. Literals of the source are ASCII and are written
  \<open>js ''...''\<close>.
\<close>

type_synonym code_unit = "16 word"
type_synonym jsstring = "code_unit list"

definition js :: "string \<Rightarrow> jsstring" where
  "js s = map (\<lambda>c. of_nat (of_char c)) s"

text \<open>
  \<^verbatim>\<open>String.prototype.trim\<close> removes leading and trailing WhiteSpace and LineTerminator
  code points (ECMAScript 2015 and later): TAB, LF, VT, FF, CR, SP, NBSP, U+1680,
  U+2000..U+200A, U+2028, U+2029, U+202F, U+205F, U+3000 and U+FEFF.
\<close>

definition isWhiteSpace :: "code_unit \<Rightarrow> bool" where
  "isWhiteSpace c =
     (c \<in> {0x0009, 0x000A, 0x000B, 0x000C, 0x000D, 0x0020, 0x00A0, 0x1680,
            0x2028, 0x2029, 0x202F, 0x205F, 0x3000, 0xFEFF}
      \<or> (0x2000 \<le> c \<and> c \<le> 0x200A))"

definition trim :: "jsstring \<Rightarrow> jsstring" where
  "trim s = rev (dropWhile isWhiteSpace (rev (dropWhile isWhiteSpace s)))"

section \<open>JSON values and the schema combinators\<close>

text \<open>
  The values a schema is applied to. \<open>None :: json option\<close> stands for \<^verbatim>\<open>undefined\<close>
  (a key that is absent from an object). An object is an association list; a key is looked
  up with \<open>map_of\<close>, so the first entry of a key gives its value. A number stands for
  itself only: no schema below looks into one.
\<close>

datatype json =
    JNull
  | JBool bool
  | JNumber int
  | JString jsstring
  | JArray "json list"
  | JObject "(jsstring \<times> json) list"

text \<open>
  An issue is the path of keys at which a value has the wrong type; a schema maps a value
  to the list of its issues or to the parsed value. The combinators follow zod 3:
  \<^verbatim>\<open>z.string()\<close> accepts exactly the values of type string (of any length),
  \<^verbatim>\<open>.optional()\<close> lets \<^verbatim>\<open>undefined\<close> through, and \<^verbatim>\<open>z.object(shape)\<close>
  accepts a non-null, non-array object, parses every key of the shape, collects the
  issues of all of them and drops the keys that the shape does not name.
  \<^verbatim>\<open>.describe(...)\<close> only attaches documentation and is left out.
\<close>

type_synonym zod_issue = "jsstring list"
type_synonym schema = "json option \<Rightarrow> zod_issue list + json option"

definition z_string :: schema where
  "z_string v = (case v of Some (JString s) \<Rightarrow> Inr (Some (JString s)) | _ \<Rightarrow> Inl [[]])"

definition z_optional :: "schema \<Rightarrow> schema" where
  "z_optional sch v = (case v of None \<Rightarrow> Inr None | Some x \<Rightarrow> sch (Some x))"

fun parse_shape ::
  "(jsstring \<times> schema) list \<Rightarrow> (jsstring \<times> json) list
     \<Rightarrow> zod_issue list \<times> (jsstring \<times> json) list" where
  "parse_shape [] obj = ([], [])"
| "parse_shape ((k, sch) # shape) obj =
     (case parse_shape shape obj of
        (issues, out) \<Rightarrow>
          (case sch (map_of obj k) of
             Inl es \<Rightarrow> (map (\<lambda>p. k # p) es @ issues, out)
           | Inr None \<Rightarrow> (issues, out)
           | Inr (Some v) \<Rightarrow> (issues, (k, v) # out)))"

definition z_object :: "(jsstring \<times> schema) list \<Rightarrow> schema" where
  "z_object shape v =
     (case v of
        Some (JObject obj) \<Rightarrow>
          (case parse_shape shape obj of
             ([], out) \<Rightarrow> Inr (Some (JObject out))
           | (i # issues, out) \<Rightarrow> Inl (i # issues))
      | _ \<Rightarrow> Inl [[]])"

subsection \<open>src/ai/schemas/post-harvest-schemas.ts\<close>

definition CurrentCropContextSchema :: schema where
  "CurrentCropContextSchema =
     z_object
       [(js ''id'', z_string),
        (js ''cropName'', z_string),
        (js ''fieldSize'', z_string),
        (js ''location'', z_string),
        (js ''sowingDate'', z_string),
        (js ''additionalInfo'', z_optional z_string)]"

definition PostHarvestInputSchema :: schema where
  "PostHarvestInputSchema =
     z_object
       [(js ''cropContext'', CurrentCropContextSchema),
        (js ''estimatedYield'', z_optional z_string),
        (js ''language'', z_optional z_string)]"

definition PostHarvestOutputSchema :: schema where
  "PostHarvestOutputSchema =
     z_object
       [(js ''storageRecommendations'', z_string),
        (js ''transportationOptions'', z_string),
        (js ''marketLinkages'', z_string),
        (js ''valueAdditionOpportunities'', z_string),
        (js ''pricingStrategy'', z_string),
        (js ''qualityControlMeasures'', z_string),
        (js ''postHarvestHandling'', z_string),
        (js ''wasteManagement'', z_string)]"

text \<open>The keys the two object schemas require, in the order of their declaration.\<close>

definition crop_context_required :: "jsstring list" where
  "crop_context_required =
     [js ''id'', js ''cropName'', js ''fieldSize'', js ''location'', js ''sowingDate'']"

definition advice_fields :: "jsstring list" where
  "advice_fields =
     [js ''storageRecommendations'', js ''transportationOptions'', js ''marketLinkages'',
      js ''valueAdditionOpportunities'', js ''pricingStrategy'',
      js ''qualityControlMeasures'', js ''postHarvestHandling'', js ''wasteManagement'']"

text \<open>A reply of the endpoint whose eight sections are all the empty string.\<close>

definition blank_advice :: json where
  "blank_advice = JObject (map (\<lambda>k. (k, JString [])) advice_fields)"

subsection \<open>The post-harvest flow\<close>

text \<open>
  Thrown values. The handlers below catch whatever is thrown and never inspect it, so an
  error is modelled as \<^verbatim>\<open>new Error(message)\<close>.
\<close>

datatype error = Error jsstring

datatype flow_error =
    ValidationError "zod_issue list"
  | RemoteError error
  | ResponseShapeError "zod_issue list"

text \<open>
  Modelled from the spec: \<^verbatim>\<open>getPostHarvestAdvice\<close> of src/ai/flows/post-harvest-flow.ts is
  not among the sources. Section 4.1 of the specification: the input is validated against
  the input schema and the flow fails with a ValidationError on a missing required field;
  on valid input one instruction is built and sent to the remote endpoint; a failing call
  is a RemoteError; a reply that does not parse into the output schema is a
  ResponseShapeError; no retry. The second component of the result lists the instructions
  sent to the endpoint. The wording of the instruction is a parameter.
\<close>

definition getPostHarvestAdvice ::
  "(json option \<Rightarrow> jsstring) \<Rightarrow> (jsstring \<Rightarrow> error + json) \<Rightarrow> json option
     \<Rightarrow> (flow_error + json option) \<times> jsstring list" where
  "getPostHarvestAdvice instruction remote inp =
     (case PostHarvestInputSchema inp of
        Inl issues \<Rightarrow> (Inl (ValidationError issues), [])
      | Inr parsed \<Rightarrow>
          (let prompt = instruction parsed in
           case remote prompt of
             Inl e \<Rightarrow> (Inl (RemoteError e), [prompt])
           | Inr reply \<Rightarrow>
               (case PostHarvestOutputSchema (Some reply) of
                  Inl issues \<Rightarrow> (Inl (ResponseShapeError issues), [prompt])
                | Inr advice \<Rightarrow> (Inr advice, [prompt]))))"

section \<open>The trend icon\<close>

text \<open>
  \<^verbatim>\<open>TrendIcon\<close> is declared twice, with the same body, in
  src/components/neerhub/market-analysis-card.tsx and
  src/components/dashboard/current-crop-agent.tsx. The element it returns is the icon
  component with its class name; \<open>None\<close> is the \<^verbatim>\<open>null\<close> of the default branch.
\<close>

datatype icon = ArrowUp | ArrowDown | Minus | BarChart

definition TrendIcon :: "jsstring \<Rightarrow> (icon \<times> string) option" where
  "TrendIcon direction =
     (if direction = js ''Upward'' then Some (ArrowUp, ''h-4 w-4 text-green-500'')
      else if direction = js ''Downward'' then Some (ArrowDown, ''h-4 w-4 text-red-500'')
      else if direction = js ''Stable'' then Some (Minus, ''h-4 w-4 text-gray-500'')
      else if direction = js ''Volatile'' then Some (BarChart, ''h-4 w-4 text-yellow-500'')
      else None)"

text \<open>
  Modelled from the spec: the schema of the market analysis result
  (src/ai/schemas/market-analysis-schemas.ts) is not among the sources. Section 3 of the
  specification gives the trend direction as one of Upward, Downward, Stable, Volatile.
\<close>

datatype trend_direction = Upward | Downward | Stable | Volatile

fun direction_string :: "trend_direction \<Rightarrow> jsstring" where
  "direction_string Upward = js ''Upward''"
| "direction_string Downward = js ''Downward''"
| "direction_string Stable = js ''Stable''"
| "direction_string Volatile = js ''Volatile''"

section \<open>What the components share\<close>

datatype toast_variant = Default | Destructive

record toast =
  variant :: toast_variant
  title :: string
  description :: string

text \<open>
  \<^verbatim>\<open>languages\<close> of src/lib/i18n is not among the sources and is a parameter: a list of
  language codes with their names. The name sent to a flow is
  \<^verbatim>\<open>languages.find(l => l.code === locale)?.name.split(' ')[0] || 'English'\<close>.
\<close>

record language =
  lang_code :: jsstring
  lang_name :: jsstring

definition currentLanguageName :: "language list \<Rightarrow> jsstring \<Rightarrow> jsstring" where
  "currentLanguageName languages locale =
     (case find (\<lambda>l. lang_code l = locale) languages of
        None \<Rightarrow> js ''English''
      | Some l \<Rightarrow>
          (let first_word = takeWhile (\<lambda>c. c \<noteq> 0x0020) (lang_name l)
           in if first_word = [] then js ''English'' else first_word))"

text \<open>
  A statement sequence that may throw: the result is the thrown value, if any, and the
  state it leaves. \<^verbatim>\<open>try { body } catch (e) { handler } finally { fin }\<close> runs the handler
  on what the body throws and runs the final block on every path; what the handler or the
  final block throws leaves the statement.
\<close>

type_synonym 's stmt = "'s \<Rightarrow> error option \<times> 's"

definition try_catch_finally ::
  "'s stmt \<Rightarrow> (error \<Rightarrow> 's stmt) \<Rightarrow> 's stmt \<Rightarrow> 's stmt" where
  "try_catch_finally body handler fin s =
     (case body s of
        (None, s1) \<Rightarrow> fin s1
      | (Some e, s1) \<Rightarrow>
          (case handler e s1 of
             (None, s2) \<Rightarrow> fin s2
           | (Some e', s2) \<Rightarrow>
               (case fin s2 of
                  (None, s3) \<Rightarrow> (Some e', s3)
                | (Some e'', s3) \<Rightarrow> (Some e'', s3))))"

text \<open>
  \<^verbatim>\<open>await call\<close> inside a try block: the settled promise either gives its value to the
  rest of the block or throws.
\<close>

definition awaited :: "error + 'a \<Rightarrow> ('a \<Rightarrow> 's \<Rightarrow> 's) \<Rightarrow> 's stmt" where
  "awaited outcome rest s =
     (case outcome of Inl e \<Rightarrow> (Some e, s) | Inr v \<Rightarrow> (None, rest v s))"

definition completes :: "('s \<Rightarrow> 's) \<Rightarrow> 's stmt" where
  "completes f s = (None, f s)"

section \<open>The market analysis tool\<close>

text \<open>
  src/components/neerhub/market-analysis-card.tsx. The form values are those of
  \<^verbatim>\<open>defaultValues\<close>; the fields \<open>mi_location\<close>, \<open>mi_query\<close> and \<open>mi_language\<close> are
  \<^verbatim>\<open>location\<close>, \<^verbatim>\<open>query\<close> and \<^verbatim>\<open>language\<close> of the source.
\<close>

record market_input =
  commodity :: jsstring
  mi_location :: jsstring
  market :: "jsstring option"
  userNotes :: "jsstring option"
  mi_query :: jsstring
  mi_language :: jsstring

text \<open>
  The state of the component (\<^verbatim>\<open>analysis\<close> and \<^verbatim>\<open>loading\<close>, the latter as
  \<open>tool_loading\<close>) with what it has shown, logged and requested so far.
\<close>

record market_tool =
  analysis :: "json option"
  tool_loading :: bool
  tool_toasts :: "toast list"
  tool_console :: "error list"
  tool_calls :: "market_input list"

definition analysis_failed_toast :: toast where
  "analysis_failed_toast =
     \<lparr>variant = Destructive, title = ''Analysis Failed'',
      description = ''Could not fetch market analysis. The model may be temporarily unavailable. Please try again later.''\<rparr>"

text \<open>\<^verbatim>\<open>onSubmit\<close> up to the point where it awaits \<^verbatim>\<open>marketAnalysis\<close>.\<close>

definition onSubmit_request ::
  "language list \<Rightarrow> jsstring \<Rightarrow> market_input \<Rightarrow> market_tool \<Rightarrow> market_tool" where
  "onSubmit_request languages locale vals st =
     (let st1 = st\<lparr>tool_loading := True\<rparr>;
          st2 = st1\<lparr>analysis := None\<rparr>
      in st2\<lparr>tool_calls := tool_calls st2 @
                 [vals\<lparr>mi_language := currentLanguageName languages locale\<rparr>]\<rparr>)"

text \<open>The rest of \<^verbatim>\<open>onSubmit\<close>, once the call has settled.\<close>

definition onSubmit_settled :: "error + json \<Rightarrow> market_tool stmt" where
  "onSubmit_settled outcome =
     try_catch_finally
       (awaited outcome (\<lambda>result st. st\<lparr>analysis := Some result\<rparr>))
       (\<lambda>e. completes (\<lambda>st.
          st\<lparr>tool_console := tool_console st @ [e],
             tool_toasts := tool_toasts st @ [analysis_failed_toast]\<rparr>))
       (completes (\<lambda>st. st\<lparr>tool_loading := False\<rparr>))"

definition onSubmit ::
  "language list \<Rightarrow> jsstring \<Rightarrow> market_input \<Rightarrow> error + json \<Rightarrow> market_tool stmt" where
  "onSubmit languages locale vals outcome st =
     onSubmit_settled outcome (onSubmit_request languages locale vals st)"

text \<open>The submit button: \<^verbatim>\<open>disabled={loading}\<close>.\<close>

definition tool_submit_disabled :: "market_tool \<Rightarrow> bool" where
  "tool_submit_disabled st = tool_loading st"

section \<open>The conversational agent\<close>

text \<open>
  The component \<^verbatim>\<open>ConversationalAgent\<close>. Its state is that of the five \<^verbatim>\<open>useState\<close>
  hooks. Beside it stand the audio elements of the page (an element is the number of
  elements created before it; \<open>playing\<close> lists the elements that are playing), the calls
  that have not settled yet, and what has been requested, shown and logged so far.
\<close>

record message =
  role :: jsstring
  content :: jsstring

datatype chat_call =
    Call_startChat jsstring jsstring "message list"
  | Call_textToSpeech jsstring

text \<open>
  A handler runs with the variables of the render it was created in; the page renders
  after every event, so a handler starts with the current state. A handler that awaits a
  call resumes when the call settles, still with the variables of the render it was
  started in, while its state updates apply to the state of that later moment.
  \<open>AwaitStartChat a\<close>: \<^verbatim>\<open>handleSubmit\<close> awaits \<^verbatim>\<open>startChat\<close> and its \<^verbatim>\<open>speak\<close> sees
  \<^verbatim>\<open>currentAudio\<close> as \<open>a\<close>. \<open>AwaitTextToSpeech autoPlay in_submit\<close>: \<^verbatim>\<open>speak\<close> awaits
  \<^verbatim>\<open>textToSpeech\<close>, called from \<^verbatim>\<open>handleSubmit\<close> when \<open>in_submit\<close> holds.
\<close>

datatype chat_pending =
    AwaitStartChat "nat option"
  | AwaitTextToSpeech bool bool

record chat =
  messages :: "message list"
  input :: jsstring
  loading :: bool
  currentAudio :: "nat option"
  isPlaying :: bool
  audios :: nat
  playing :: "nat list"
  chat_pending :: "chat_pending list"
  chat_calls :: "chat_call list"
  chat_toasts :: "toast list"
  chat_console :: "(string \<times> error) list"

definition chat_init :: chat where
  "chat_init =
     \<lparr>messages = [], input = [], loading = False, currentAudio = None, isPlaying = False,
      audios = 0, playing = [], chat_pending = [], chat_calls = [], chat_toasts = [],
      chat_console = []\<rparr>"

text \<open>
  \<^verbatim>\<open>stopCurrentAudio\<close>, for the value of \<^verbatim>\<open>currentAudio\<close> that the calling render holds.
  Pausing a playing element fires its \<^verbatim>\<open>onpause\<close>, which sets \<^verbatim>\<open>isPlaying\<close> to false as
  the last statement does.
\<close>

definition stopCurrentAudio :: "nat option \<Rightarrow> chat \<Rightarrow> chat" where
  "stopCurrentAudio captured st =
     (case captured of
        None \<Rightarrow> st
      | Some a \<Rightarrow>
          st\<lparr>playing := removeAll a (playing st), currentAudio := None, isPlaying := False\<rparr>)"

text \<open>
  \<^verbatim>\<open>speak\<close> up to the point where it awaits \<^verbatim>\<open>textToSpeech\<close>; the first component tells
  whether it got there.
\<close>

definition speak :: "nat option \<Rightarrow> jsstring \<Rightarrow> chat \<Rightarrow> bool \<times> chat" where
  "speak captured str st =
     (let st1 = stopCurrentAudio captured st
      in if trim str = [] then (False, st1)
         else (True, st1\<lparr>chat_calls := chat_calls st1 @ [Call_textToSpeech str]\<rparr>))"

definition tts_failed_toast :: toast where
  "tts_failed_toast =
     \<lparr>variant = Destructive, title = ''Text-to-Speech Failed'',
      description = ''Could not generate audio for the response.''\<rparr>"

text \<open>
  The rest of \<^verbatim>\<open>speak\<close>. The call gives \<^verbatim>\<open>audioDataUri\<close>, which may be undefined or
  empty, or throws; \<open>rejected\<close> is what \<^verbatim>\<open>audio.play()\<close> rejects with, if it does. A
  started element fires its \<^verbatim>\<open>onplay\<close>.
\<close>

definition speak_settled ::
  "error + jsstring option \<Rightarrow> bool \<Rightarrow> error option \<Rightarrow> chat \<Rightarrow> chat" where
  "speak_settled outcome autoPlay rejected st =
     (case outcome of
        Inl e \<Rightarrow>
          st\<lparr>chat_console := chat_console st @ [(''TTS error:'', e)],
             chat_toasts := chat_toasts st @ [tts_failed_toast]\<rparr>
      | Inr audioDataUri \<Rightarrow>
          (if audioDataUri = None \<or> audioDataUri = Some [] then st
           else
             (let audio = audios st;
                  st1 = st\<lparr>audios := Suc audio\<rparr>;
                  st2 = st1\<lparr>currentAudio := Some audio\<rparr>
              in if autoPlay then
                   (case rejected of
                      None \<Rightarrow> st2\<lparr>playing := playing st2 @ [audio], isPlaying := True\<rparr>
                    | Some e \<Rightarrow>
                        st2\<lparr>chat_console :=
                              chat_console st2 @ [(''Audio playback failed:'', e)]\<rparr>)
                 else st2)))"

text \<open>
  The toast of the catch block of \<^verbatim>\<open>handleSubmit\<close>; its description is the text that the
  translation function \<^verbatim>\<open>t\<close> is given.
\<close>

definition chat_error_toast :: toast where
  "chat_error_toast =
     \<lparr>variant = Destructive, title = ''Error'',
      description = ''An unexpected error occurred.''\<rparr>"

text \<open>
  \<^verbatim>\<open>handleSubmit\<close> up to the point where it awaits \<^verbatim>\<open>startChat\<close>.
  \<^verbatim>\<open>history.slice(0, -1)\<close> is \<open>butlast history\<close>.
\<close>

definition handleSubmit :: "language list \<Rightarrow> jsstring \<Rightarrow> chat \<Rightarrow> chat" where
  "handleSubmit languages locale st =
     (if trim (input st) = [] \<or> loading st then st
      else
        (let userMessage = \<lparr>role = js ''user'', content = input st\<rparr>;
             st1 = st\<lparr>messages := messages st @ [userMessage]\<rparr>;
             st2 = st1\<lparr>input := []\<rparr>;
             st3 = st2\<lparr>loading := True\<rparr>;
             st4 = stopCurrentAudio (currentAudio st) st3;
             history = messages st @ [userMessage]
         in st4\<lparr>chat_calls := chat_calls st4 @
                   [Call_startChat (input st) (currentLanguageName languages locale)
                      (butlast history)],
                chat_pending := chat_pending st4 @ [AwaitStartChat (currentAudio st)]\<rparr>))"

text \<open>
  \<^verbatim>\<open>handleSubmit\<close> after \<^verbatim>\<open>startChat\<close> has settled: the reply is appended and spoken,
  or the catch block runs. The final block runs here unless \<^verbatim>\<open>speak\<close> awaits.
\<close>

definition startChat_settled :: "nat option \<Rightarrow> error + jsstring \<Rightarrow> chat \<Rightarrow> chat" where
  "startChat_settled captured outcome st =
     (case outcome of
        Inr response \<Rightarrow>
          (let aiMessage = \<lparr>role = js ''model'', content = response\<rparr>;
               st1 = st\<lparr>messages := messages st @ [aiMessage]\<rparr>
           in case speak captured response st1 of
                (True, st2) \<Rightarrow>
                  st2\<lparr>chat_pending := chat_pending st2 @ [AwaitTextToSpeech True True]\<rparr>
              | (False, st2) \<Rightarrow> st2\<lparr>loading := False\<rparr>)
      | Inl e \<Rightarrow>
          (let st1 = st\<lparr>chat_console := chat_console st @ [(''Conversational agent error:'', e)],
                        chat_toasts := chat_toasts st @ [chat_error_toast]\<rparr>;
               errorMessage =
                 \<lparr>role = js ''model'',
                  content = js ''Sorry, I encountered an error. Please try again.''\<rparr>;
               st2 = st1\<lparr>messages := messages st1 @ [errorMessage]\<rparr>
           in st2\<lparr>loading := False\<rparr>))"

text \<open>The send button: \<^verbatim>\<open>disabled={loading || !input.trim()}\<close>.\<close>

definition send_disabled :: "chat \<Rightarrow> bool" where
  "send_disabled st = (loading st \<or> trim (input st) = [])"

definition remove_nth :: "nat \<Rightarrow> 'a list \<Rightarrow> 'a list" where
  "remove_nth i xs = take i xs @ drop (Suc i) xs"

text \<open>
  What can happen to the component: the user types or dictates, submits the form (the
  button or the Enter key, both run \<^verbatim>\<open>handleSubmit\<close>), clicks the speaker button of a
  reply or the stop button, a pending call settles, or a playing element reaches its end.
  An event that the page does not offer in a state leaves the state as it is.
\<close>

datatype chat_event =
    SetInput jsstring
  | Submit
  | ClickSpeak nat
  | ClickStop
  | StartChatSettled nat "error + jsstring"
  | TextToSpeechSettled nat "error + jsstring option" "error option"
  | AudioEnded nat

fun chat_step :: "language list \<Rightarrow> jsstring \<Rightarrow> chat_event \<Rightarrow> chat \<Rightarrow> chat" where
  "chat_step languages locale (SetInput s) st = st\<lparr>input := s\<rparr>"
| "chat_step languages locale Submit st = handleSubmit languages locale st"
| "chat_step languages locale (ClickSpeak i) st =
     (if i < length (messages st) \<and> role (messages st ! i) = js ''model'' then
        (case speak (currentAudio st) (content (messages st ! i)) st of
           (True, st1) \<Rightarrow>
             st1\<lparr>chat_pending := chat_pending st1 @ [AwaitTextToSpeech True False]\<rparr>
         | (False, st1) \<Rightarrow> st1)
      else st)"
| "chat_step languages locale ClickStop st =
     (if isPlaying st then stopCurrentAudio (currentAudio st) st else st)"
| "chat_step languages locale (StartChatSettled i outcome) st =
     (if i < length (chat_pending st) then
        (case chat_pending st ! i of
           AwaitStartChat captured \<Rightarrow>
             startChat_settled captured outcome
               (st\<lparr>chat_pending := remove_nth i (chat_pending st)\<rparr>)
         | AwaitTextToSpeech autoPlay in_submit \<Rightarrow> st)
      else st)"
| "chat_step languages locale (TextToSpeechSettled i outcome rejected) st =
     (if i < length (chat_pending st) then
        (case chat_pending st ! i of
           AwaitStartChat captured \<Rightarrow> st
         | AwaitTextToSpeech autoPlay in_submit \<Rightarrow>
             (let st1 = speak_settled outcome autoPlay rejected
                          (st\<lparr>chat_pending := remove_nth i (chat_pending st)\<rparr>)
              in if in_submit then st1\<lparr>loading := False\<rparr> else st1))
      else st)"
| "chat_step languages locale (AudioEnded a) st =
     (if a \<in> set (playing st) then
        st\<lparr>playing := removeAll a (playing st), isPlaying := False, currentAudio := None\<rparr>
      else st)"

definition chat_run :: "language list \<Rightarrow> jsstring \<Rightarrow> chat_event list \<Rightarrow> chat \<Rightarrow> chat" where
  "chat_run languages locale evs st = foldl (\<lambda>s e. chat_step languages locale e s) st evs"

text \<open>
  A failed submission leaves one reply on the page; its speaker button is clicked twice
  before either request for audio has settled, then both settle.
\<close>

definition audio_uri :: jsstring where
  "audio_uri = js ''data:audio/wav;base64,UklGRg==''"

definition double_speak :: "chat_event list" where
  "double_speak =
     [SetInput (js ''hello''), Submit, StartChatSettled 0 (Inl (Error (js ''offline''))),
      ClickSpeak 1, ClickSpeak 1,
      TextToSpeechSettled 0 (Inr (Some audio_uri)) None,
      TextToSpeechSettled 0 (Inr (Some audio_uri)) None]"

text \<open>
  After a failed submission a second question is submitted; while \<^verbatim>\<open>startChat\<close> is
  awaited the speaker button of the first reply is clicked and its audio starts; then the
  answer arrives and is spoken by the \<^verbatim>\<open>speak\<close> of the render in which the question was
  submitted, where \<^verbatim>\<open>currentAudio\<close> was still null.
\<close>

definition speak_during_submit :: "chat_event list" where
  "speak_during_submit =
     [SetInput (js ''hello''), Submit, StartChatSettled 0 (Inl (Error (js ''offline''))),
      SetInput (js ''hello again''), Submit,
      ClickSpeak 1, TextToSpeechSettled 1 (Inr (Some audio_uri)) None,
      StartChatSettled 0 (Inr (js ''Namaste'')),
      TextToSpeechSettled 0 (Inr (Some audio_uri)) None]"

section \<open>The current crop agent\<close>

text \<open>
  The component \<^verbatim>\<open>CurrentCropAgent\<close>. A crop has the fields of
  \<^verbatim>\<open>CurrentCropContextSchema\<close> (\<open>crop_id\<close> is \<^verbatim>\<open>id\<close>). The state holds the
  \<^verbatim>\<open>useState\<close> hooks that the query form and its three actions use, the two fields of
  \<^verbatim>\<open>agentQueryForm\<close> with the error set on \<^verbatim>\<open>query\<close>, the calls that have not settled,
  and what has been requested, shown and logged. The form for adding a crop is left out.
\<close>

record crop =
  crop_id :: jsstring
  cropName :: jsstring
  fieldSize :: jsstring
  location :: jsstring
  sowingDate :: jsstring
  additionalInfo :: "jsstring option"

datatype agent_call =
    Call_getAllCurrentCrops
  | Call_askCurrentCropAgent jsstring crop jsstring
  | Call_marketAnalysis market_input
  | Call_getPostHarvestAdvice crop jsstring jsstring

datatype agent_pending = AwaitCrops | AwaitAgent | AwaitMarket | AwaitPostHarvest

record crop_agent =
  crops :: "crop list"
  loadingCrops :: bool
  loadingResponse :: bool
  agentResponse :: "json option"
  marketAnalysisResult :: "json option"
  postHarvestResult :: "json option"
  selectedCropId :: jsstring
  query :: "jsstring option"
  query_error :: "string option"
  agent_pending :: "agent_pending list"
  agent_calls :: "agent_call list"
  agent_toasts :: "toast list"
  agent_console :: "error list"

definition agent_init :: crop_agent where
  "agent_init =
     \<lparr>crops = [], loadingCrops = True, loadingResponse = False, agentResponse = None,
      marketAnalysisResult = None, postHarvestResult = None, selectedCropId = [],
      query = Some [], query_error = None, agent_pending = [], agent_calls = [],
      agent_toasts = [], agent_console = []\<rparr>"

definition destructive :: "string \<Rightarrow> string \<Rightarrow> toast" where
  "destructive ttl dsc = \<lparr>variant = Destructive, title = ttl, description = dsc\<rparr>"

subsection \<open>Loading the crops\<close>

definition fetchCrops :: "crop_agent \<Rightarrow> crop_agent" where
  "fetchCrops st =
     (let st1 = st\<lparr>loadingCrops := True\<rparr>
      in st1\<lparr>agent_calls := agent_calls st1 @ [Call_getAllCurrentCrops],
             agent_pending := agent_pending st1 @ [AwaitCrops]\<rparr>)"

definition fetchCrops_settled :: "error + crop list \<Rightarrow> crop_agent stmt" where
  "fetchCrops_settled outcome =
     try_catch_finally
       (awaited outcome (\<lambda>fetchedCrops st.
          (let st1 = st\<lparr>crops := fetchedCrops\<rparr>
           in case fetchedCrops of
                [] \<Rightarrow> st1\<lparr>selectedCropId := []\<rparr>
              | c # cs \<Rightarrow> st1\<lparr>selectedCropId := crop_id c\<rparr>)))
       (\<lambda>e. completes (\<lambda>st.
          st\<lparr>agent_console := agent_console st @ [e],
             agent_toasts := agent_toasts st @
               [destructive ''Error'' ''Could not load your crops.'']\<rparr>))
       (completes (\<lambda>st. st\<lparr>loadingCrops := False\<rparr>))"

subsection \<open>The three actions\<close>

definition getSelectedCrop :: "crop_agent \<Rightarrow> crop option \<times> crop_agent" where
  "getSelectedCrop st =
     (case find (\<lambda>c. crop_id c = selectedCropId st) (crops st) of
        None \<Rightarrow>
          (None, st\<lparr>agent_toasts := agent_toasts st @
                      [destructive ''Error'' ''Please select a crop first.'']\<rparr>)
      | Some selectedCrop \<Rightarrow> (Some selectedCrop, st))"

definition clearResults :: "crop_agent \<Rightarrow> crop_agent" where
  "clearResults st =
     (let st1 = st\<lparr>agentResponse := None\<rparr>;
          st2 = st1\<lparr>marketAnalysisResult := None\<rparr>
      in st2\<lparr>postHarvestResult := None\<rparr>)"

definition query_too_short :: string where
  "query_too_short = ''Please enter a question with at least 5 characters.''"

text \<open>
  \<^verbatim>\<open>onQuerySubmit\<close> up to its call. \<^verbatim>\<open>!query\<close> holds of the undefined and of the empty
  query.
\<close>

definition onQuerySubmit :: "language list \<Rightarrow> jsstring \<Rightarrow> crop_agent \<Rightarrow> crop_agent" where
  "onQuerySubmit languages locale st =
     (case getSelectedCrop st of
        (None, st1) \<Rightarrow> st1
      | (Some selectedCrop, st1) \<Rightarrow>
          (case query st1 of
             None \<Rightarrow> st1\<lparr>query_error := Some query_too_short\<rparr>
           | Some q \<Rightarrow>
               if q = [] \<or> length (trim q) < 5 then st1\<lparr>query_error := Some query_too_short\<rparr>
               else
                 (let st2 = st1\<lparr>loadingResponse := True\<rparr>;
                      st3 = clearResults st2
                  in st3\<lparr>agent_calls := agent_calls st3 @
                            [Call_askCurrentCropAgent q selectedCrop
                               (currentLanguageName languages locale)],
                         agent_pending := agent_pending st3 @ [AwaitAgent]\<rparr>)))"

definition onQuerySubmit_settled :: "error + json \<Rightarrow> crop_agent stmt" where
  "onQuerySubmit_settled outcome =
     try_catch_finally
       (awaited outcome (\<lambda>response st. st\<lparr>agentResponse := Some response\<rparr>))
       (\<lambda>e. completes (\<lambda>st.
          st\<lparr>agent_console := agent_console st @ [e],
             agent_toasts := agent_toasts st @
               [destructive ''Agent Error'' ''The agent could not process your request.'']\<rparr>))
       (completes (\<lambda>st. st\<lparr>loadingResponse := False\<rparr>))"

definition handleMarketAnalysis :: "language list \<Rightarrow> jsstring \<Rightarrow> crop_agent \<Rightarrow> crop_agent" where
  "handleMarketAnalysis languages locale st =
     (case getSelectedCrop st of
        (None, st1) \<Rightarrow> st1
      | (Some selectedCrop, st1) \<Rightarrow>
          (let st2 = st1\<lparr>loadingResponse := True\<rparr>;
               st3 = clearResults st2
           in st3\<lparr>agent_calls := agent_calls st3 @
                     [Call_marketAnalysis
                        \<lparr>commodity = cropName selectedCrop,
                         mi_location = location selectedCrop,
                         market = None, userNotes = None,
                         mi_query = js ''Provide a market analysis for '' @ cropName selectedCrop
                                      @ js '' in '' @ location selectedCrop,
                         mi_language = currentLanguageName languages locale\<rparr>],
                  agent_pending := agent_pending st3 @ [AwaitMarket]\<rparr>))"

definition handleMarketAnalysis_settled :: "error + json \<Rightarrow> crop_agent stmt" where
  "handleMarketAnalysis_settled outcome =
     try_catch_finally
       (awaited outcome (\<lambda>result st. st\<lparr>marketAnalysisResult := Some result\<rparr>))
       (\<lambda>e. completes (\<lambda>st.
          st\<lparr>agent_console := agent_console st @ [e],
             agent_toasts := agent_toasts st @
               [destructive ''Analysis Failed'' ''Could not fetch market analysis.'']\<rparr>))
       (completes (\<lambda>st. st\<lparr>loadingResponse := False\<rparr>))"

definition handlePostHarvestHelp ::
  "language list \<Rightarrow> jsstring \<Rightarrow> jsstring \<Rightarrow> crop_agent \<Rightarrow> crop_agent" where
  "handlePostHarvestHelp languages locale yield st =
     (case getSelectedCrop st of
        (None, st1) \<Rightarrow> st1
      | (Some selectedCrop, st1) \<Rightarrow>
          (let st2 = st1\<lparr>loadingResponse := True\<rparr>;
               st3 = clearResults st2
           in st3\<lparr>agent_calls := agent_calls st3 @
                     [Call_getPostHarvestAdvice selectedCrop yield
                        (currentLanguageName languages locale)],
                  agent_pending := agent_pending st3 @ [AwaitPostHarvest]\<rparr>))"

definition handlePostHarvestHelp_settled :: "error + json \<Rightarrow> crop_agent stmt" where
  "handlePostHarvestHelp_settled outcome =
     try_catch_finally
       (awaited outcome (\<lambda>result st. st\<lparr>postHarvestResult := Some result\<rparr>))
       (\<lambda>e. completes (\<lambda>st.
          st\<lparr>agent_console := agent_console st @ [e],
             agent_toasts := agent_toasts st @
               [destructive ''Analysis Failed'' ''Could not fetch post-harvest advice.'']\<rparr>))
       (completes (\<lambda>st. st\<lparr>loadingResponse := False\<rparr>))"

text \<open>
  The three buttons (Ask Agent, Get Market Analysis, and the trigger of the post-harvest
  dialog) carry \<^verbatim>\<open>disabled={loadingResponse || crops.length === 0}\<close>.
\<close>

definition action_disabled :: "crop_agent \<Rightarrow> bool" where
  "action_disabled st = (loadingResponse st \<or> length (crops st) = 0)"

text \<open>
  What can happen to the component: \<^verbatim>\<open>fetchCrops\<close> starts (on mount and after a crop was
  added), the user picks one of the listed crops, edits the question, clicks one of the
  three buttons, or a pending call settles. A click on a disabled button does nothing.
  The third button opens the post-harvest dialog, which is modal and closes when it is
  submitted; opening it and submitting a yield is one event here, offered when the button is
  enabled. The dialog hands the yield to \<^verbatim>\<open>handlePostHarvestHelp\<close> once
  \<^verbatim>\<open>postHarvestYieldSchema\<close> has accepted it, that is when it is not empty.
\<close>

datatype agent_event =
    FetchCrops
  | SelectCrop jsstring
  | SetQuery jsstring
  | ClickAskAgent
  | ClickMarketAnalysis
  | SubmitPostHarvest jsstring
  | CropsSettled nat "error + crop list"
  | AgentSettled nat "error + json"
  | MarketSettled nat "error + json"
  | PostHarvestSettled nat "error + json"

definition settle ::
  "agent_pending \<Rightarrow> nat \<Rightarrow> crop_agent stmt \<Rightarrow> crop_agent \<Rightarrow> crop_agent" where
  "settle kind i resume st =
     (if i < length (agent_pending st) \<and> agent_pending st ! i = kind
      then snd (resume (st\<lparr>agent_pending := remove_nth i (agent_pending st)\<rparr>))
      else st)"

fun agent_step :: "language list \<Rightarrow> jsstring \<Rightarrow> agent_event \<Rightarrow> crop_agent \<Rightarrow> crop_agent" where
  "agent_step languages locale FetchCrops st = fetchCrops st"
| "agent_step languages locale (SelectCrop v) st =
     (if \<not> loadingCrops st \<and> v \<in> set (map crop_id (crops st))
      then st\<lparr>selectedCropId := v\<rparr> else st)"
| "agent_step languages locale (SetQuery q) st = st\<lparr>query := Some q\<rparr>"
| "agent_step languages locale ClickAskAgent st =
     (if action_disabled st then st else onQuerySubmit languages locale st)"
| "agent_step languages locale ClickMarketAnalysis st =
     (if action_disabled st then st else handleMarketAnalysis languages locale st)"
| "agent_step languages locale (SubmitPostHarvest yield) st =
     (if action_disabled st \<or> length yield < 1 then st
      else handlePostHarvestHelp languages locale yield st)"
| "agent_step languages locale (CropsSettled i outcome) st =
     settle AwaitCrops i (fetchCrops_settled outcome) st"
| "agent_step languages locale (AgentSettled i outcome) st =
     settle AwaitAgent i (onQuerySubmit_settled outcome) st"
| "agent_step languages locale (MarketSettled i outcome) st =
     settle AwaitMarket i (handleMarketAnalysis_settled outcome) st"
| "agent_step languages locale (PostHarvestSettled i outcome) st =
     settle AwaitPostHarvest i (handlePostHarvestHelp_settled outcome) st"

definition agent_run ::
  "language list \<Rightarrow> jsstring \<Rightarrow> agent_event list \<Rightarrow> crop_agent \<Rightarrow> crop_agent" where
  "agent_run languages locale evs st = foldl (\<lambda>s e. agent_step languages locale e s) st evs"

text \<open>The number of result slots that hold a result.\<close>

definition results_shown :: "crop_agent \<Rightarrow> nat" where
  "results_shown st =
     (if agentResponse st = None then 0 else 1)
     + (if marketAnalysisResult st = None then 0 else 1)
     + (if postHarvestResult st = None then 0 else 1)"

section \<open>Invariants of the current crop agent and of the conversation\<close>

text \<open>
  When crops are listed, the selected identifier is that of one of them: \<^verbatim>\<open>fetchCrops\<close>
  selects the first crop it stores, and the select box offers the stored crops only.
\<close>

definition crop_selected :: "crop_agent \<Rightarrow> bool" where
  "crop_selected st = (crops st = [] \<or> selectedCropId st \<in> set (map crop_id (crops st)))"

text \<open>
  The pending calls of the three actions. While \<^verbatim>\<open>loadingResponse\<close> holds exactly one of
  them is pending and no result is shown; otherwise none is pending and at most one result
  is shown.
\<close>

definition is_action :: "agent_pending \<Rightarrow> bool" where
  "is_action p = (p \<noteq> AwaitCrops)"

definition one_action :: "crop_agent \<Rightarrow> bool" where
  "one_action st =
     (if loadingResponse st
      then results_shown st = 0 \<and> length (filter is_action (agent_pending st)) = 1
      else results_shown st \<le> 1 \<and> filter is_action (agent_pending st) = [])"

definition role_ok :: "message \<Rightarrow> bool" where
  "role_ok m = (role m = js ''user'' \<or> role m = js ''model'')"

section \<open>Example values\<close>

definition english :: "language list" where
  "english = [\<lparr>lang_code = js ''en'', lang_name = js ''English''\<rparr>,
              \<lparr>lang_code = js ''hi'', lang_name = js ''Hindi (India)''\<rparr>]"

text \<open>A reply with the eight sections and one more key, and what the schema makes of it.\<close>

definition tomato_reply :: json where
  "tomato_reply =
     JObject
       [(js ''storageRecommendations'', JString (js ''Keep at 12 C'')),
        (js ''note'', JString (js ''generated'')),
        (js ''transportationOptions'', JString (js ''Ventilated crates'')),
        (js ''marketLinkages'', JString (js ''Pune mandi'')),
        (js ''valueAdditionOpportunities'', JString (js ''Puree'')),
        (js ''pricingStrategy'', JString (js ''Sell in lots'')),
        (js ''qualityControlMeasures'', JString (js ''Grade by size'')),
        (js ''postHarvestHandling'', JString (js ''Sort and wipe'')),
        (js ''wasteManagement'', JString (js ''Compost culls''))]"

definition tomato_advice :: json where
  "tomato_advice =
     JObject
       [(js ''storageRecommendations'', JString (js ''Keep at 12 C'')),
        (js ''transportationOptions'', JString (js ''Ventilated crates'')),
        (js ''marketLinkages'', JString (js ''Pune mandi'')),
        (js ''valueAdditionOpportunities'', JString (js ''Puree'')),
        (js ''pricingStrategy'', JString (js ''Sell in lots'')),
        (js ''qualityControlMeasures'', JString (js ''Grade by size'')),
        (js ''postHarvestHandling'', JString (js ''Sort and wipe'')),
        (js ''wasteManagement'', JString (js ''Compost culls''))]"

text \<open>
  The example of section 8 of the specification: a crop context without an \<^verbatim>\<open>id\<close>, and
  the same with one.
\<close>

definition tomato_input :: json where
  "tomato_input =
     JObject
       [(js ''cropContext'',
         JObject
           [(js ''cropName'', JString (js ''Tomato'')),
            (js ''fieldSize'', JString (js ''2 acres'')),
            (js ''location'', JString (js ''Pune'')),
            (js ''sowingDate'', JString (js ''2024-01-10''))]),
        (js ''estimatedYield'', JString (js ''10 tonnes''))]"

definition tomato_input_with_id :: json where
  "tomato_input_with_id =
     JObject
       [(js ''cropContext'',
         JObject
           [(js ''id'', JString (js ''c1'')),
            (js ''cropName'', JString (js ''Tomato'')),
            (js ''fieldSize'', JString (js ''2 acres'')),
            (js ''location'', JString (js ''Pune'')),
            (js ''sowingDate'', JString (js ''2024-01-10''))]),
        (js ''estimatedYield'', JString (js ''10 tonnes''))]"

definition tomato_crop :: crop where
  "tomato_crop = \<lparr>crop_id = js ''c1'', cropName = js ''Tomato'', fieldSize = js ''2 acres'',
     location = js ''Pune'', sowingDate = js ''2024-01-10'', additionalInfo = None\<rparr>"

definition tomato_prices :: market_input where
  "tomato_prices = \<lparr>commodity = js ''Tomato'', mi_location = js ''Pune'', market = Some [],
     userNotes = Some [], mi_query = js ''What is the price of tomatoes in Pune today?'',
     mi_language = []\<rparr>"

definition tool_init :: market_tool where
  "tool_init = \<lparr>analysis = None, tool_loading = False, tool_toasts = [], tool_console = [],
      tool_calls = []\<rparr>"

definition tool_waiting :: market_tool where
  "tool_waiting = onSubmit_request english (js ''en'') tomato_prices tool_init"

text \<open>The crop agent once its crops are loaded, and with a market analysis under way.\<close>

definition crops_loaded :: "agent_event list" where
  "crops_loaded = [FetchCrops, CropsSettled 0 (Inr [tomato_crop])]"

definition agent_ready :: crop_agent where
  "agent_ready = agent_run english (js ''en'') crops_loaded agent_init"

definition agent_waiting :: crop_agent where
  "agent_waiting = agent_step english (js ''en'') ClickMarketAnalysis agent_ready"

text \<open>
  A question is typed and a market analysis is shown; and a question of three characters
  is typed.
\<close>

definition question_typed :: "agent_event list" where
  "question_typed =
     crops_loaded @
     [SetQuery (js ''When should I apply fertilizer?''),
      ClickMarketAnalysis, MarketSettled 0 (Inr (JString (js ''steady'')))]"

definition market_shown :: crop_agent where
  "market_shown = agent_run english (js ''en'') question_typed agent_init"

definition short_question :: "agent_event list" where
  "short_question = crops_loaded @ [SetQuery (js ''hey'')]"

text \<open>
  The conversation after one answered turn with the next question typed, and while the
  first question is still in flight.
\<close>

definition two_turns :: "chat_event list" where
  "two_turns =
     [SetInput (js ''hello''), Submit, StartChatSettled 0 (Inr []),
      SetInput (js ''price of rice?'')]"

definition chat_two_turns :: chat where
  "chat_two_turns = chat_run english (js ''en'') two_turns chat_init"

definition chat_waiting :: chat where
  "chat_waiting =
     chat_run english (js ''en'')
       [SetInput (js ''hello''), Submit, SetInput (js ''are you there?'')] chat_init"

chapter \<open>Properties\<close>

section \<open>Trimming\<close>

lemma trim_length: "length (trim q) \<le> length q"
proof -
  have "length (trim q) \<le> length (dropWhile isWhiteSpace q)"
    unfolding trim_def by (simp add: length_dropWhile_le order_trans [OF length_dropWhile_le])
  also have "\<dots> \<le> length q" by (rule length_dropWhile_le)
  finally show ?thesis .
qed

lemma trim_Nil_iff: "trim q = [] \<longleftrightarrow> (\<forall>c\<in>set q. isWhiteSpace c)"
proof
  assume "trim q = []"
  then have all: "\<forall>c\<in>set (dropWhile isWhiteSpace q). isWhiteSpace c"
    by (simp add: trim_def dropWhile_eq_Nil_conv)
  have "dropWhile isWhiteSpace q = []"
  proof (rule ccontr)
    assume ne: "dropWhile isWhiteSpace q \<noteq> []"
    then have "\<not> isWhiteSpace (hd (dropWhile isWhiteSpace q))" by (rule hd_dropWhile)
    moreover have "hd (dropWhile isWhiteSpace q) \<in> set (dropWhile isWhiteSpace q)"
      using ne by simp
    ultimately show False using all by blast
  qed
  then show "\<forall>c\<in>set q. isWhiteSpace c" by (simp add: dropWhile_eq_Nil_conv)
next
  assume "\<forall>c\<in>set q. isWhiteSpace c"
  then have "dropWhile isWhiteSpace q = []" by (simp add: dropWhile_eq_Nil_conv)
  then show "trim q = []" by (simp add: trim_def del: dropWhile_eq_Nil_conv)
qed

section \<open>The post-harvest schemas\<close>

subsection \<open>An object of string fields\<close>

lemma parse_shape_strings_issues:
  "fst (parse_shape (map (\<lambda>k. (k, z_string)) ks) obj) = [] \<longleftrightarrow>
     (\<forall>k\<in>set ks. \<exists>s. map_of obj k = Some (JString s))"
  by (induction ks) (auto simp: z_string_def split: prod.splits option.splits json.splits)

lemma parse_shape_strings_out:
  "\<forall>k\<in>set ks. \<exists>s. map_of obj k = Some (JString s) \<Longrightarrow>
   snd (parse_shape (map (\<lambda>k. (k, z_string)) ks) obj) = map (\<lambda>k. (k, the (map_of obj k))) ks"
  by (induction ks) (auto simp: z_string_def split: prod.splits option.splits json.splits)

lemma z_object_strings:
  "z_object (map (\<lambda>k. (k, z_string)) ks) v = Inr parsed \<longleftrightarrow>
     (\<exists>obj. v = Some (JObject obj) \<and>
        (\<forall>k\<in>set ks. \<exists>s. map_of obj k = Some (JString s)) \<and>
        parsed = Some (JObject (map (\<lambda>k. (k, the (map_of obj k))) ks)))"
proof (cases v)
  case None
  then show ?thesis by (simp add: z_object_def)
next
  case (Some j)
  show ?thesis
  proof (cases j)
    case (JObject obj)
    obtain issues out where p: "parse_shape (map (\<lambda>k. (k, z_string)) ks) obj = (issues, out)"
      by (cases "parse_shape (map (\<lambda>k. (k, z_string)) ks) obj")
    have i: "issues = [] \<longleftrightarrow> (\<forall>k\<in>set ks. \<exists>s. map_of obj k = Some (JString s))"
      using parse_shape_strings_issues [of ks obj] p by simp
    have o: "(\<forall>k\<in>set ks. \<exists>s. map_of obj k = Some (JString s)) \<Longrightarrow>
               out = map (\<lambda>k. (k, the (map_of obj k))) ks"
      using parse_shape_strings_out [of ks obj] p by simp
    show ?thesis
      using Some JObject p i o
      by (cases issues) (auto simp: z_object_def)
  qed (simp_all add: Some z_object_def)
qed

lemma PostHarvestOutputSchema_shape:
  "PostHarvestOutputSchema = z_object (map (\<lambda>k. (k, z_string)) advice_fields)"
  by (simp add: PostHarvestOutputSchema_def advice_fields_def)

subsection \<open>The output schema\<close>

text \<open>
  Claim C1 says that what the output schema accepts holds exactly the eight advice fields,
  each a non-empty string, and that a reply with a missing or wrongly typed field is
  rejected as a whole. The schema declares each field as \<^verbatim>\<open>z.string()\<close> with no minimum
  length, so the reply whose eight sections are all empty is accepted as it is.
\<close>

theorem PostHarvestOutputSchema_accepts_blank:
  "PostHarvestOutputSchema (Some blank_advice) = Inr (Some blank_advice) \<and>
   (case blank_advice of
      JObject out \<Rightarrow> map_of out (js ''storageRecommendations'') = Some (JString [])
    | _ \<Rightarrow> False)"
  by (simp add: PostHarvestOutputSchema_def blank_advice_def advice_fields_def z_object_def
      z_string_def js_def)

text \<open>
  Claim C1, amended: the output schema accepts a reply exactly when the reply is an object
  in which each of the eight advice fields is a string, of any length; the parsed result
  then holds exactly the eight fields, in the order of their declaration, with the strings
  of the reply, and every other key of the reply is dropped. Every other reply (not an
  object, a field missing, a field that is not a string) is rejected as a whole, since the
  result of a schema is either its issues or the parsed value.
\<close>

theorem PostHarvestOutputSchema_accepts:
  "PostHarvestOutputSchema reply = Inr parsed \<longleftrightarrow>
     (\<exists>obj. reply = Some (JObject obj) \<and>
        (\<forall>k\<in>set advice_fields. \<exists>s. map_of obj k = Some (JString s)) \<and>
        parsed = Some (JObject (map (\<lambda>k. (k, the (map_of obj k))) advice_fields)))"
  unfolding PostHarvestOutputSchema_shape by (rule z_object_strings)

theorem PostHarvestOutputSchema_accepts_witness:
  "PostHarvestOutputSchema (Some tomato_reply) = Inr (Some tomato_advice)"
  using PostHarvestOutputSchema_accepts [of "Some tomato_reply" "Some tomato_advice"]
  by (simp add: tomato_reply_def tomato_advice_def advice_fields_def js_def)

subsection \<open>The input schema\<close>

lemma parse_shape_issue:
  "(k, sch) \<in> set shape \<Longrightarrow> sch (map_of obj k) = Inl (e # es) \<Longrightarrow>
   fst (parse_shape shape obj) \<noteq> []"
  by (induction shape) (auto split: prod.splits sum.splits option.splits)

lemma z_object_rejects:
  assumes "(k, sch) \<in> set shape" and "sch (map_of obj k) = Inl (e # es)"
  shows "\<exists>i issues. z_object shape (Some (JObject obj)) = Inl (i # issues)"
proof -
  obtain issues out where p: "parse_shape shape obj = (issues, out)"
    by (cases "parse_shape shape obj")
  with parse_shape_issue [OF assms] have "issues \<noteq> []" by simp
  then obtain i rest where "issues = i # rest" by (cases issues) auto
  with p show ?thesis by (simp add: z_object_def)
qed

lemma z_string_rejects:
  "(\<forall>s. v \<noteq> Some (JString s)) \<Longrightarrow> z_string v = Inl [[]]"
  by (auto simp: z_string_def split: option.splits json.splits)

lemma crop_context_required_shape:
  "k \<in> set crop_context_required \<Longrightarrow>
   (k, z_string) \<in> set [(js ''id'', z_string), (js ''cropName'', z_string),
        (js ''fieldSize'', z_string), (js ''location'', z_string),
        (js ''sowingDate'', z_string), (js ''additionalInfo'', z_optional z_string)]"
  by (auto simp: crop_context_required_def)

lemma CurrentCropContextSchema_rejects:
  assumes "k \<in> set crop_context_required" and "\<forall>s. map_of cc k \<noteq> Some (JString s)"
  shows "\<exists>i issues. CurrentCropContextSchema (Some (JObject cc)) = Inl (i # issues)"
  unfolding CurrentCropContextSchema_def
  using z_object_rejects [OF crop_context_required_shape [OF assms(1)]
      z_string_rejects [OF assms(2)]] .

lemma PostHarvestInputSchema_rejects:
  assumes "map_of inp (js ''cropContext'') = Some (JObject cc)"
    and "k \<in> set crop_context_required" and "\<forall>s. map_of cc k \<noteq> Some (JString s)"
  shows "\<exists>i issues. PostHarvestInputSchema (Some (JObject inp)) = Inl (i # issues)"
proof -
  obtain i issues
    where "CurrentCropContextSchema (map_of inp (js ''cropContext'')) = Inl (i # issues)"
    using CurrentCropContextSchema_rejects [OF assms(2,3)] assms(1) by auto
  then show ?thesis
    unfolding PostHarvestInputSchema_def
    by (intro z_object_rejects [where k = "js ''cropContext''" and sch = CurrentCropContextSchema])
      simp_all
qed

text \<open>The input schema does accept the example once the crop has its identifier.\<close>

lemma PostHarvestInputSchema_accepts_example:
  "PostHarvestInputSchema (Some tomato_input_with_id) = Inr (Some tomato_input_with_id)"
  by (simp add: PostHarvestInputSchema_def CurrentCropContextSchema_def tomato_input_with_id_def
      z_object_def z_string_def z_optional_def js_def)

text \<open>
  Claim C2: an input whose crop context lacks one of the five required fields (the key is
  absent, or its value is not a string) is rejected by the input schema, and the flow fails
  with a ValidationError without having sent anything to the remote endpoint. The schema
  is that of the source; the flow is the one modelled from the specification.
\<close>

theorem missing_crop_field_fails_before_remote_call:
  assumes "map_of inp (js ''cropContext'') = Some (JObject cc)"
    and "k \<in> set crop_context_required"
    and "\<forall>s. map_of cc k \<noteq> Some (JString s)"
  shows "\<exists>issues. issues \<noteq> [] \<and>
           PostHarvestInputSchema (Some (JObject inp)) = Inl issues \<and>
           getPostHarvestAdvice instruction remote (Some (JObject inp))
             = (Inl (ValidationError issues), [])"
proof -
  obtain i issues where "PostHarvestInputSchema (Some (JObject inp)) = Inl (i # issues)"
    using PostHarvestInputSchema_rejects [OF assms] by blast
  then show ?thesis by (simp add: getPostHarvestAdvice_def)
qed

theorem missing_crop_field_witness:
  "\<exists>issues. issues \<noteq> [] \<and>
      PostHarvestInputSchema (Some tomato_input) = Inl issues \<and>
      getPostHarvestAdvice (\<lambda>p. []) (\<lambda>p. Inr tomato_reply) (Some tomato_input)
        = (Inl (ValidationError issues), [])"
proof -
  let ?cc = "[(js ''cropName'', JString (js ''Tomato'')),
            (js ''fieldSize'', JString (js ''2 acres'')),
            (js ''location'', JString (js ''Pune'')),
            (js ''sowingDate'', JString (js ''2024-01-10''))]"
  let ?inp = "[(js ''cropContext'', JObject ?cc),
               (js ''estimatedYield'', JString (js ''10 tonnes''))]"
  have a: "map_of ?inp (js ''cropContext'') = Some (JObject ?cc)" by simp
  have b: "js ''id'' \<in> set crop_context_required" by (simp add: crop_context_required_def)
  have c: "\<forall>s. map_of ?cc (js ''id'') \<noteq> Some (JString s)" by (simp add: js_def)
  show ?thesis
    using missing_crop_field_fails_before_remote_call [OF a b c] by (simp add: tomato_input_def)
qed

section \<open>The trend icon\<close>

text \<open>
  Claim C7: every trend direction that a market analysis result can carry (one of Upward,
  Downward, Stable, Volatile) has an icon, and the branch without an icon is taken exactly
  by the strings that are none of the four.
\<close>

theorem TrendIcon_defined:
  "TrendIcon (direction_string d) \<noteq> None \<and>
   ((TrendIcon s = None) = (\<forall>d'. s \<noteq> direction_string d'))"
proof -
  have a: "TrendIcon (direction_string d) \<noteq> None"
    by (cases d) (simp_all add: TrendIcon_def)
  have b: "(TrendIcon s = None) = (\<forall>d'. s \<noteq> direction_string d')"
  proof
    assume n: "TrendIcon s = None"
    show "\<forall>d'. s \<noteq> direction_string d'"
    proof
      fix d'
      from n show "s \<noteq> direction_string d'"
        by (cases d') (auto simp: TrendIcon_def split: if_splits)
    qed
  next
    assume "\<forall>d'. s \<noteq> direction_string d'"
    then have "s \<noteq> direction_string Upward" "s \<noteq> direction_string Downward"
      "s \<noteq> direction_string Stable" "s \<noteq> direction_string Volatile"
      by blast+
    then show "TrendIcon s = None" by (simp add: TrendIcon_def)
  qed
  from a b show ?thesis ..
qed

theorem TrendIcon_defined_witness:
  "TrendIcon (js ''Volatile'') = Some (BarChart, ''h-4 w-4 text-yellow-500'') \<and>
   TrendIcon (direction_string Volatile) \<noteq> None \<and>
   TrendIcon (js ''Sideways'') = None"
  using TrendIcon_defined [of Volatile "js ''Sideways''"]
  by (simp add: TrendIcon_def js_def)

section \<open>Submit handlers\<close>

lemma try_catch_finally_throws:
  "try_catch_finally (awaited (Inl e) rest) (\<lambda>e. completes (h e)) (completes f) s
     = (None, f (h e s))"
  by (simp add: try_catch_finally_def awaited_def completes_def)

lemma try_catch_finally_returns:
  "try_catch_finally (awaited (Inr v) rest) (\<lambda>e. completes (h e)) (completes f) s
     = (None, f (rest v s))"
  by (simp add: try_catch_finally_def awaited_def completes_def)

lemma agent_ready_eq:
  "agent_ready = agent_init\<lparr>crops := [tomato_crop], loadingCrops := False,
      selectedCropId := js ''c1'', agent_calls := [Call_getAllCurrentCrops]\<rparr>"
  by (simp add: agent_ready_def agent_run_def crops_loaded_def agent_init_def fetchCrops_def
      settle_def remove_nth_def fetchCrops_settled_def try_catch_finally_returns Let_def
      tomato_crop_def)

text \<open>
  Claim C5: a failing flow call is caught inside the handler. For the market analysis
  tool, \<^verbatim>\<open>onSubmit\<close> with a failing call completes without throwing, leaves
  \<^verbatim>\<open>loading\<close> false and \<^verbatim>\<open>analysis\<close> empty, shows one fixed toast whatever was
  thrown, and has sent exactly one request; before the call settled \<^verbatim>\<open>loading\<close> was
  true. For the crop agent, the rest of \<^verbatim>\<open>handlePostHarvestHelp\<close> after a failing call
  completes without throwing, sets \<^verbatim>\<open>loadingResponse\<close> to false, shows one fixed toast and
  sends nothing; the handler had set \<^verbatim>\<open>loadingResponse\<close>, cleared the results and sent
  one request. The other two actions of the crop agent end a failing call in the same way.
\<close>

theorem flow_failure_is_caught:
  "onSubmit languages locale vals (Inl e) st =
     (None, st\<lparr>analysis := None, tool_loading := False,
              tool_calls := tool_calls st @
                [vals\<lparr>mi_language := currentLanguageName languages locale\<rparr>],
              tool_console := tool_console st @ [e],
              tool_toasts := tool_toasts st @ [analysis_failed_toast]\<rparr>)
   \<and> tool_loading (onSubmit_request languages locale vals st)
   \<and> handlePostHarvestHelp_settled (Inl e) ag =
       (None, ag\<lparr>loadingResponse := False,
                agent_console := agent_console ag @ [e],
                agent_toasts := agent_toasts ag @
                  [destructive ''Analysis Failed'' ''Could not fetch post-harvest advice.'']\<rparr>)
   \<and> (fst (getSelectedCrop ag) = Some c \<longrightarrow>
        loadingResponse (handlePostHarvestHelp languages locale yield ag) \<and>
        results_shown (handlePostHarvestHelp languages locale yield ag) = 0 \<and>
        agent_calls (handlePostHarvestHelp languages locale yield ag) =
          agent_calls ag @
            [Call_getPostHarvestAdvice c yield (currentLanguageName languages locale)])
   \<and> onQuerySubmit_settled (Inl e) ag =
       (None, ag\<lparr>loadingResponse := False,
                agent_console := agent_console ag @ [e],
                agent_toasts := agent_toasts ag @
                  [destructive ''Agent Error'' ''The agent could not process your request.'']\<rparr>)
   \<and> handleMarketAnalysis_settled (Inl e) ag =
       (None, ag\<lparr>loadingResponse := False,
                agent_console := agent_console ag @ [e],
                agent_toasts := agent_toasts ag @
                  [destructive ''Analysis Failed'' ''Could not fetch market analysis.'']\<rparr>)"
proof -
  have a: "onSubmit languages locale vals (Inl e) st =
     (None, st\<lparr>analysis := None, tool_loading := False,
              tool_calls := tool_calls st @
                [vals\<lparr>mi_language := currentLanguageName languages locale\<rparr>],
              tool_console := tool_console st @ [e],
              tool_toasts := tool_toasts st @ [analysis_failed_toast]\<rparr>)"
    by (simp add: onSubmit_def onSubmit_settled_def onSubmit_request_def
        try_catch_finally_throws Let_def)
  have b: "tool_loading (onSubmit_request languages locale vals st)"
    by (simp add: onSubmit_request_def Let_def)
  have c: "handlePostHarvestHelp_settled (Inl e) ag =
       (None, ag\<lparr>loadingResponse := False,
                agent_console := agent_console ag @ [e],
                agent_toasts := agent_toasts ag @
                  [destructive ''Analysis Failed'' ''Could not fetch post-harvest advice.'']\<rparr>)"
    by (simp add: handlePostHarvestHelp_settled_def try_catch_finally_throws)
  have d: "fst (getSelectedCrop ag) = Some c \<longrightarrow>
        loadingResponse (handlePostHarvestHelp languages locale yield ag) \<and>
        results_shown (handlePostHarvestHelp languages locale yield ag) = 0 \<and>
        agent_calls (handlePostHarvestHelp languages locale yield ag) =
          agent_calls ag @
            [Call_getPostHarvestAdvice c yield (currentLanguageName languages locale)]"
    by (auto simp: handlePostHarvestHelp_def getSelectedCrop_def clearResults_def
        results_shown_def Let_def split: option.splits)
  have f: "onQuerySubmit_settled (Inl e) ag =
       (None, ag\<lparr>loadingResponse := False,
                agent_console := agent_console ag @ [e],
                agent_toasts := agent_toasts ag @
                  [destructive ''Agent Error'' ''The agent could not process your request.'']\<rparr>)"
    by (simp add: onQuerySubmit_settled_def try_catch_finally_throws)
  have g: "handleMarketAnalysis_settled (Inl e) ag =
       (None, ag\<lparr>loadingResponse := False,
                agent_console := agent_console ag @ [e],
                agent_toasts := agent_toasts ag @
                  [destructive ''Analysis Failed'' ''Could not fetch market analysis.'']\<rparr>)"
    by (simp add: handleMarketAnalysis_settled_def try_catch_finally_throws)
  from a b c d f g show ?thesis by blast
qed

theorem flow_failure_is_caught_witness:
  "fst (onSubmit english (js ''en'') tomato_prices (Inl (Error (js ''timeout''))) tool_init) = None
   \<and> tool_toasts (snd (onSubmit english (js ''en'') tomato_prices
         (Inl (Error (js ''timeout''))) tool_init)) = [analysis_failed_toast]
   \<and> fst (getSelectedCrop agent_ready) = Some tomato_crop
   \<and> loadingResponse (handlePostHarvestHelp english (js ''en'') (js ''10 tonnes'') agent_ready)
   \<and> fst (handlePostHarvestHelp_settled (Inl (Error (js ''timeout'')))
        (handlePostHarvestHelp english (js ''en'') (js ''10 tonnes'') agent_ready)) = None"
proof -
  have s: "fst (getSelectedCrop agent_ready) = Some tomato_crop"
    by (simp add: agent_ready_eq getSelectedCrop_def agent_init_def tomato_crop_def)
  show ?thesis
    using s flow_failure_is_caught [of english "js ''en''" tomato_prices
        "Error (js ''timeout'')" tool_init
        "handlePostHarvestHelp english (js ''en'') (js ''10 tonnes'') agent_ready"]
      flow_failure_is_caught [of english "js ''en''" tomato_prices
        "Error (js ''timeout'')" tool_init agent_ready tomato_crop "js ''10 tonnes''"]
    by (simp add: tool_init_def)
qed

section \<open>The conversation\<close>

text \<open>
  Claim C3: a submission made with N messages on the page sends exactly these N messages
  as the history, in their order, and the query beside them; the query is the message
  appended after the N.
\<close>

theorem handleSubmit_transmits_history:
  assumes "trim (input st) \<noteq> []" and "\<not> loading st"
  shows "chat_calls (handleSubmit languages locale st) =
           chat_calls st @
             [Call_startChat (input st) (currentLanguageName languages locale) (messages st)]
         \<and> messages (handleSubmit languages locale st) =
             messages st @ [\<lparr>role = js ''user'', content = input st\<rparr>]"
  using assms
  by (simp add: handleSubmit_def Let_def stopCurrentAudio_def split: option.splits)

lemma chat_two_turns_eq:
  "chat_two_turns = chat_init\<lparr>messages := [\<lparr>role = js ''user'', content = js ''hello''\<rparr>,
        \<lparr>role = js ''model'', content = []\<rparr>], input := js ''price of rice?'',
        chat_calls := [Call_startChat (js ''hello'') (js ''English'') []]\<rparr>"
  by code_simp

theorem handleSubmit_transmits_history_witness:
  "chat_calls (handleSubmit english (js ''en'') chat_two_turns) =
     [Call_startChat (js ''hello'') (js ''English'') [],
      Call_startChat (js ''price of rice?'') (js ''English'')
        [\<lparr>role = js ''user'', content = js ''hello''\<rparr>, \<lparr>role = js ''model'', content = []\<rparr>]]
   \<and> length (messages chat_two_turns) = 2"
proof -
  have a: "trim (input chat_two_turns) \<noteq> []" by code_simp
  have b: "\<not> loading chat_two_turns" by code_simp
  have c: "currentLanguageName english (js ''en'') = js ''English''" by code_simp
  show ?thesis
    using handleSubmit_transmits_history [OF a b, of english "js ''en''"] c
    by (simp add: chat_two_turns_eq chat_init_def)
qed

text \<open>
  Claim C6: while a request is in flight a further submit attempt changes nothing and
  sends nothing. In the conversation the send button is disabled and \<^verbatim>\<open>handleSubmit\<close>,
  which the Enter key also reaches, returns at once. In the crop agent the three buttons
  are disabled, so a click on any of them leaves the state as it is; the handlers
  themselves do not test \<^verbatim>\<open>loadingResponse\<close>. In the market analysis tool the submit
  button is disabled. The requests sent so far are part of the state.
\<close>

theorem resubmission_prevented:
  "(loading st \<longrightarrow> send_disabled st \<and> handleSubmit languages locale st = st)
   \<and> (loadingResponse ag \<longrightarrow>
        action_disabled ag
        \<and> agent_step languages locale ClickAskAgent ag = ag
        \<and> agent_step languages locale ClickMarketAnalysis ag = ag
        \<and> agent_step languages locale (SubmitPostHarvest yield) ag = ag)
   \<and> (tool_loading mt \<longrightarrow> tool_submit_disabled mt)"
  by (simp add: send_disabled_def handleSubmit_def action_disabled_def tool_submit_disabled_def)

theorem resubmission_prevented_witness:
  "loading chat_waiting \<and> trim (input chat_waiting) \<noteq> []
   \<and> handleSubmit english (js ''en'') chat_waiting = chat_waiting
   \<and> loadingResponse agent_waiting
   \<and> agent_step english (js ''en'') ClickAskAgent agent_waiting = agent_waiting
   \<and> tool_loading tool_waiting \<and> tool_submit_disabled tool_waiting"
proof -
  have a: "loading chat_waiting" by code_simp
  have b: "trim (input chat_waiting) \<noteq> []" by code_simp
  have c: "loadingResponse agent_waiting" by code_simp
  have d: "tool_loading tool_waiting" by code_simp
  show ?thesis
    using a b c d
      resubmission_prevented [of chat_waiting english "js ''en''" agent_waiting "js ''1 t''"
        tool_waiting]
    by simp
qed

subsection \<open>The messages\<close>

lemma stopCurrentAudio_messages:
  "messages (stopCurrentAudio a st) = messages st"
  by (simp add: stopCurrentAudio_def split: option.splits)

lemma speak_messages: "messages (snd (speak a str st)) = messages st"
  by (simp add: speak_def Let_def stopCurrentAudio_messages)

lemma speak_settled_messages:
  "messages (speak_settled outcome autoPlay rejected st) = messages st"
  by (simp add: speak_settled_def Let_def split: sum.splits option.splits)

lemma handleSubmit_appends:
  "\<exists>new. messages (handleSubmit languages locale st) = messages st @ new \<and> list_all role_ok new"
  by (simp add: handleSubmit_def Let_def role_ok_def stopCurrentAudio_messages)

lemma startChat_settled_appends:
  "\<exists>new. messages (startChat_settled a outcome st) = messages st @ new \<and> list_all role_ok new"
proof (cases outcome)
  case (Inl e)
  then show ?thesis by (simp add: startChat_settled_def Let_def role_ok_def)
next
  case (Inr response)
  obtain w st2 where s: "speak a response
      (st\<lparr>messages := messages st @ [\<lparr>role = js ''model'', content = response\<rparr>]\<rparr>) = (w, st2)"
    by (cases "speak a response
      (st\<lparr>messages := messages st @ [\<lparr>role = js ''model'', content = response\<rparr>]\<rparr>)")
  have "messages st2 = messages st @ [\<lparr>role = js ''model'', content = response\<rparr>]"
    using speak_messages [of a response
        "st\<lparr>messages := messages st @ [\<lparr>role = js ''model'', content = response\<rparr>]\<rparr>"] s
    by simp
  then show ?thesis
    using Inr s by (cases w) (simp_all add: startChat_settled_def Let_def role_ok_def)
qed

lemma chat_step_appends:
  "\<exists>new. messages (chat_step languages locale e st) = messages st @ new \<and> list_all role_ok new"
proof (cases e)
  case (SetInput s)
  then show ?thesis by simp
next
  case Submit
  then show ?thesis by (simp add: handleSubmit_appends)
next
  case (ClickSpeak i)
  obtain w st1 where s: "speak (currentAudio st) (content (messages st ! i)) st = (w, st1)"
    by (cases "speak (currentAudio st) (content (messages st ! i)) st")
  have "messages st1 = messages st"
    using speak_messages [of "currentAudio st" "content (messages st ! i)" st] s by simp
  then show ?thesis using ClickSpeak s by (cases w) simp_all
next
  case ClickStop
  then show ?thesis by (simp add: stopCurrentAudio_messages)
next
  case (StartChatSettled i outcome)
  show ?thesis
  proof (cases "i < length (chat_pending st)")
    case True
    show ?thesis
    proof (cases "chat_pending st ! i")
      case (AwaitStartChat a)
      with True StartChatSettled
        startChat_settled_appends [of a outcome
          "st\<lparr>chat_pending := remove_nth i (chat_pending st)\<rparr>"]
      show ?thesis by simp
    next
      case (AwaitTextToSpeech autoPlay in_submit)
      with True StartChatSettled show ?thesis by simp
    qed
  next
    case False
    with StartChatSettled show ?thesis by simp
  qed
next
  case (TextToSpeechSettled i outcome rejected)
  then show ?thesis
    by (simp add: Let_def speak_settled_messages split: chat_pending.splits)
next
  case (AudioEnded a)
  then show ?thesis by simp
qed

lemma chat_run_appends:
  "\<exists>new. messages (chat_run languages locale evs st) = messages st @ new \<and> list_all role_ok new"
proof (induction evs arbitrary: st)
  case Nil
  show ?case by (simp add: chat_run_def)
next
  case (Cons e evs)
  obtain n1 where a: "messages (chat_step languages locale e st) = messages st @ n1"
    and b: "list_all role_ok n1"
    using chat_step_appends by blast
  obtain n2 where c: "messages (chat_run languages locale evs (chat_step languages locale e st))
      = messages (chat_step languages locale e st) @ n2" and d: "list_all role_ok n2"
    using Cons.IH by blast
  have "chat_run languages locale (e # evs) st
      = chat_run languages locale evs (chat_step languages locale e st)"
    by (simp add: chat_run_def)
  with a b c d show ?case by simp
qed

text \<open>
  Claim C8: whatever happens to the component, a submission that succeeds or fails
  included, the messages it held before are a prefix of the messages it holds afterwards;
  and in every state that the component reaches from its initial state each message has
  the role \<^verbatim>\<open>user\<close> or \<^verbatim>\<open>model\<close>.
\<close>

theorem messages_append_only:
  "prefix (messages st) (messages (chat_run languages locale evs st))
   \<and> list_all role_ok (messages (chat_run languages locale evs chat_init))"
proof -
  obtain n1 where "messages (chat_run languages locale evs st) = messages st @ n1"
    using chat_run_appends by blast
  then have a: "prefix (messages st) (messages (chat_run languages locale evs st))" by simp
  obtain n2 where "messages (chat_run languages locale evs chat_init) = messages chat_init @ n2"
    and "list_all role_ok n2"
    using chat_run_appends by blast
  then have "list_all role_ok (messages (chat_run languages locale evs chat_init))"
    by (simp add: chat_init_def)
  with a show ?thesis ..
qed

theorem messages_append_only_witness:
  "messages (chat_run english (js ''en'') [StartChatSettled 0 (Inl (Error (js ''offline'')))]
      chat_waiting)
     = [\<lparr>role = js ''user'', content = js ''hello''\<rparr>,
        \<lparr>role = js ''model'',
         content = js ''Sorry, I encountered an error. Please try again.''\<rparr>]
   \<and> prefix (messages chat_waiting)
        (messages (chat_run english (js ''en'')
           [StartChatSettled 0 (Inl (Error (js ''offline'')))] chat_waiting))
   \<and> list_all role_ok (messages (chat_run english (js ''en'')
        [StartChatSettled 0 (Inl (Error (js ''offline'')))] chat_init))"
proof -
  have a: "messages (chat_run english (js ''en'')
      [StartChatSettled 0 (Inl (Error (js ''offline'')))] chat_waiting)
     = [\<lparr>role = js ''user'', content = js ''hello''\<rparr>,
        \<lparr>role = js ''model'',
         content = js ''Sorry, I encountered an error. Please try again.''\<rparr>]"
    by code_simp
  show ?thesis
    using a messages_append_only [of chat_waiting english "js ''en''"
        "[StartChatSettled 0 (Inl (Error (js ''offline'')))]"]
    by simp
qed

subsection \<open>Audio playback\<close>

lemma speak_stops_current:
  "currentAudio st = Some a \<Longrightarrow>
   a \<notin> set (playing (snd (speak (currentAudio st) str st))) \<and>
   currentAudio (snd (speak (currentAudio st) str st)) = None"
  by (simp add: speak_def stopCurrentAudio_def Let_def)

text \<open>
  Claim C4 says that two audio streams never play at once. \<^verbatim>\<open>speak\<close> stops the current
  element before it requests the new audio, and starts the new element when the request
  has settled without stopping anything then. Two calls of \<^verbatim>\<open>speak\<close> whose requests
  overlap therefore start two elements: after the events of \<open>double_speak\<close> the elements 0
  and 1 are both playing, and only element 1 is the current one.
\<close>

theorem double_speak_overlaps:
  "playing (chat_run english (js ''en'') double_speak chat_init) = [0, 1]
   \<and> currentAudio (chat_run english (js ''en'') double_speak chat_init) = Some 1"
  by code_simp

text \<open>
  The same happens when \<^verbatim>\<open>handleSubmit\<close> speaks an answer while an element started in
  the meantime is playing: its \<^verbatim>\<open>stopCurrentAudio\<close> still sees no current element.
\<close>

lemma speak_during_submit_overlaps:
  "playing (chat_run english (js ''en'') speak_during_submit chat_init) = [0, 1]"
  by code_simp

section \<open>The current crop agent\<close>

subsection \<open>A crop is selected whenever the buttons are enabled\<close>

lemma crop_selected_step:
  "crop_selected st \<Longrightarrow> crop_selected (agent_step languages locale e st)"
proof (cases e)
  case (CropsSettled i outcome)
  assume "crop_selected st"
  then show ?thesis
    unfolding CropsSettled
    by (cases outcome)
      (auto simp: crop_selected_def settle_def fetchCrops_settled_def
        try_catch_finally_throws try_catch_finally_returns Let_def split: list.splits)
next
  case ClickAskAgent
  assume "crop_selected st"
  then show ?thesis
    unfolding ClickAskAgent
    by (auto simp: crop_selected_def onQuerySubmit_def getSelectedCrop_def clearResults_def
        Let_def split: option.splits)
next
  case ClickMarketAnalysis
  assume "crop_selected st"
  then show ?thesis
    unfolding ClickMarketAnalysis
    by (auto simp: crop_selected_def handleMarketAnalysis_def getSelectedCrop_def
        clearResults_def Let_def split: option.splits)
next
  case (SubmitPostHarvest y)
  assume "crop_selected st"
  then show ?thesis
    unfolding SubmitPostHarvest
    by (auto simp: crop_selected_def handlePostHarvestHelp_def getSelectedCrop_def
        clearResults_def Let_def split: option.splits)
next
  case (AgentSettled i outcome)
  assume "crop_selected st"
  then show ?thesis
    unfolding AgentSettled
    by (cases outcome)
      (auto simp: crop_selected_def settle_def onQuerySubmit_settled_def
        try_catch_finally_throws try_catch_finally_returns)
next
  case (MarketSettled i outcome)
  assume "crop_selected st"
  then show ?thesis
    unfolding MarketSettled
    by (cases outcome)
      (auto simp: crop_selected_def settle_def handleMarketAnalysis_settled_def
        try_catch_finally_throws try_catch_finally_returns)
next
  case (PostHarvestSettled i outcome)
  assume "crop_selected st"
  then show ?thesis
    unfolding PostHarvestSettled
    by (cases outcome)
      (auto simp: crop_selected_def settle_def handlePostHarvestHelp_settled_def
        try_catch_finally_throws try_catch_finally_returns)
qed (auto simp: crop_selected_def fetchCrops_def Let_def)

lemma crop_selected_run:
  "crop_selected st \<Longrightarrow> crop_selected (agent_run languages locale evs st)"
  unfolding agent_run_def
  by (induction evs arbitrary: st) (simp_all add: crop_selected_step)

lemma crop_selected_init: "crop_selected agent_init"
  by (simp add: crop_selected_def agent_init_def)

lemma find_selected:
  assumes "crop_selected st" and "\<not> action_disabled st"
  shows "\<exists>c. getSelectedCrop st = (Some c, st)"
proof -
  have "selectedCropId st \<in> set (map crop_id (crops st))"
    using assms by (auto simp: crop_selected_def action_disabled_def)
  then have "find (\<lambda>c. crop_id c = selectedCropId st) (crops st) \<noteq> None"
    by (auto simp: find_None_iff)
  then show ?thesis by (auto simp: getSelectedCrop_def)
qed

subsection \<open>One action at a time\<close>

lemma filter_remove_nth_other:
  assumes "i < length xs" and "\<not> P (xs ! i)"
  shows "filter P (remove_nth i xs) = filter P xs"
proof -
  have "xs = take i xs @ xs ! i # drop (Suc i) xs" using assms(1) by (rule id_take_nth_drop)
  then have "filter P xs = filter P (take i xs @ xs ! i # drop (Suc i) xs)" by simp
  also have "\<dots> = filter P (remove_nth i xs)" using assms(2) by (simp add: remove_nth_def)
  finally show ?thesis by simp
qed

lemma filter_remove_nth_same:
  assumes "i < length xs" and "P (xs ! i)"
  shows "length (filter P xs) = Suc (length (filter P (remove_nth i xs)))"
proof -
  have "xs = take i xs @ xs ! i # drop (Suc i) xs" using assms(1) by (rule id_take_nth_drop)
  then have "filter P xs = filter P (take i xs @ xs ! i # drop (Suc i) xs)" by simp
  then show ?thesis using assms(2) by (simp add: remove_nth_def)
qed

lemma result_slots:
  "results_shown (clearResults st) = 0"
  "results_shown (st\<lparr>crops := a1\<rparr>) = results_shown st"
  "results_shown (st\<lparr>loadingCrops := a2\<rparr>) = results_shown st"
  "results_shown (st\<lparr>loadingResponse := a3\<rparr>) = results_shown st"
  "results_shown (st\<lparr>selectedCropId := a4\<rparr>) = results_shown st"
  "results_shown (st\<lparr>query := a5\<rparr>) = results_shown st"
  "results_shown (st\<lparr>query_error := a6\<rparr>) = results_shown st"
  "results_shown (st\<lparr>agent_pending := a7\<rparr>) = results_shown st"
  "results_shown (st\<lparr>agent_calls := a8\<rparr>) = results_shown st"
  "results_shown (st\<lparr>agent_toasts := a9\<rparr>) = results_shown st"
  "results_shown (st\<lparr>agent_console := a10\<rparr>) = results_shown st"
  "loadingResponse (clearResults st) = loadingResponse st"
  "agent_pending (clearResults st) = agent_pending st"
  "agent_calls (clearResults st) = agent_calls st"
  by (simp_all add: results_shown_def clearResults_def)

lemma results_shown_set:
  "results_shown st = 0 \<Longrightarrow> results_shown (st\<lparr>agentResponse := Some r\<rparr>) = 1"
  "results_shown st = 0 \<Longrightarrow> results_shown (st\<lparr>marketAnalysisResult := Some r\<rparr>) = 1"
  "results_shown st = 0 \<Longrightarrow> results_shown (st\<lparr>postHarvestResult := Some r\<rparr>) = 1"
  by (auto simp: results_shown_def split: if_splits)

lemma one_action_settle_action:
  assumes inv: "one_action st" and i: "i < length (agent_pending st)"
    and k: "is_action (agent_pending st ! i)"
  shows "loadingResponse st \<and> results_shown st = 0 \<and>
         filter is_action (remove_nth i (agent_pending st)) = []"
proof -
  have "filter is_action (agent_pending st) \<noteq> []"
    using i k by (auto simp: filter_empty_conv)
  with inv have l: "loadingResponse st" and r: "results_shown st = 0"
    and n: "length (filter is_action (agent_pending st)) = 1"
    by (auto simp: one_action_def split: if_splits)
  from filter_remove_nth_same [of i "agent_pending st" is_action] i k n
  have "filter is_action (remove_nth i (agent_pending st)) = []" by simp
  with l r show ?thesis by simp
qed

lemma one_action_step:
  assumes inv: "one_action st"
  shows "one_action (agent_step languages locale e st)"
proof (cases e)
  case FetchCrops
  with inv show ?thesis
    by (auto simp: one_action_def fetchCrops_def Let_def is_action_def result_slots)
next
  case (SelectCrop v)
  with inv show ?thesis by (auto simp: one_action_def result_slots)
next
  case (SetQuery q)
  with inv show ?thesis by (auto simp: one_action_def result_slots)
next
  case ClickAskAgent
  with inv show ?thesis
    by (auto simp: one_action_def action_disabled_def onQuerySubmit_def getSelectedCrop_def
        Let_def is_action_def result_slots split: option.splits)
next
  case ClickMarketAnalysis
  with inv show ?thesis
    by (auto simp: one_action_def action_disabled_def handleMarketAnalysis_def
        getSelectedCrop_def Let_def is_action_def result_slots split: option.splits)
next
  case (SubmitPostHarvest y)
  with inv show ?thesis
    by (auto simp: one_action_def action_disabled_def handlePostHarvestHelp_def
        getSelectedCrop_def Let_def is_action_def result_slots split: option.splits)
next
  case (CropsSettled i outcome)
  show ?thesis
  proof (cases "i < length (agent_pending st) \<and> agent_pending st ! i = AwaitCrops")
    case True
    then have f: "filter is_action (remove_nth i (agent_pending st))
                    = filter is_action (agent_pending st)"
      by (intro filter_remove_nth_other) (simp_all add: is_action_def)
    with inv True show ?thesis
      unfolding CropsSettled
      by (cases outcome)
        (auto simp: one_action_def settle_def fetchCrops_settled_def result_slots
          try_catch_finally_throws try_catch_finally_returns Let_def split: list.splits)
  next
    case False
    with inv show ?thesis unfolding CropsSettled by (auto simp: settle_def)
  qed
next
  case (AgentSettled i outcome)
  show ?thesis
  proof (cases "i < length (agent_pending st) \<and> agent_pending st ! i = AwaitAgent")
    case True
    then have "loadingResponse st \<and> results_shown st = 0 \<and>
         filter is_action (remove_nth i (agent_pending st)) = []"
      by (intro one_action_settle_action [OF inv]) (simp_all add: is_action_def)
    with True show ?thesis
      unfolding AgentSettled
      by (cases outcome)
        (auto simp: one_action_def settle_def onQuerySubmit_settled_def results_shown_set
          result_slots try_catch_finally_throws try_catch_finally_returns split: if_splits)
  next
    case False
    with inv show ?thesis unfolding AgentSettled by (auto simp: settle_def)
  qed
next
  case (MarketSettled i outcome)
  show ?thesis
  proof (cases "i < length (agent_pending st) \<and> agent_pending st ! i = AwaitMarket")
    case True
    then have "loadingResponse st \<and> results_shown st = 0 \<and>
         filter is_action (remove_nth i (agent_pending st)) = []"
      by (intro one_action_settle_action [OF inv]) (simp_all add: is_action_def)
    with True show ?thesis
      unfolding MarketSettled
      by (cases outcome)
        (auto simp: one_action_def settle_def handleMarketAnalysis_settled_def
          results_shown_set result_slots try_catch_finally_throws try_catch_finally_returns
          split: if_splits)
  next
    case False
    with inv show ?thesis unfolding MarketSettled by (auto simp: settle_def)
  qed
next
  case (PostHarvestSettled i outcome)
  show ?thesis
  proof (cases "i < length (agent_pending st) \<and> agent_pending st ! i = AwaitPostHarvest")
    case True
    then have "loadingResponse st \<and> results_shown st = 0 \<and>
         filter is_action (remove_nth i (agent_pending st)) = []"
      by (intro one_action_settle_action [OF inv]) (simp_all add: is_action_def)
    with True show ?thesis
      unfolding PostHarvestSettled
      by (cases outcome)
        (auto simp: one_action_def settle_def handlePostHarvestHelp_settled_def
          results_shown_set result_slots try_catch_finally_throws try_catch_finally_returns
          split: if_splits)
  next
    case False
    with inv show ?thesis unfolding PostHarvestSettled by (auto simp: settle_def)
  qed
qed

lemma one_action_run:
  "one_action st \<Longrightarrow> one_action (agent_run languages locale evs st)"
  unfolding agent_run_def
  by (induction evs arbitrary: st) (simp_all add: one_action_step)

lemma one_action_init: "one_action agent_init"
  by (simp add: one_action_def agent_init_def results_shown_def)

lemma clears_before_call:
  "agent_calls (onQuerySubmit languages locale st) \<noteq> agent_calls st \<longrightarrow>
     results_shown (onQuerySubmit languages locale st) = 0"
  "agent_calls (handleMarketAnalysis languages locale st) \<noteq> agent_calls st \<longrightarrow>
     results_shown (handleMarketAnalysis languages locale st) = 0"
  "agent_calls (handlePostHarvestHelp languages locale yield st) \<noteq> agent_calls st \<longrightarrow>
     results_shown (handlePostHarvestHelp languages locale yield st) = 0"
  by (auto simp: onQuerySubmit_def handleMarketAnalysis_def handlePostHarvestHelp_def
      getSelectedCrop_def Let_def result_slots split: option.splits)

lemma failure_shows_nothing:
  assumes "one_action st" and "i < length (agent_pending st)"
  shows "agent_pending st ! i = AwaitAgent \<longrightarrow>
           results_shown (agent_step languages locale (AgentSettled i (Inl e)) st) = 0"
    and "agent_pending st ! i = AwaitMarket \<longrightarrow>
           results_shown (agent_step languages locale (MarketSettled i (Inl e)) st) = 0"
    and "agent_pending st ! i = AwaitPostHarvest \<longrightarrow>
           results_shown (agent_step languages locale (PostHarvestSettled i (Inl e)) st) = 0"
  using one_action_settle_action [OF assms]
  by (auto simp: settle_def is_action_def onQuerySubmit_settled_def
      handleMarketAnalysis_settled_def handlePostHarvestHelp_settled_def
      try_catch_finally_throws result_slots)

text \<open>
  Claim C9: in every state \<open>ag\<close> that the crop agent reaches from its initial state at most
  one of the three result slots holds a result, and none does while an action is under way.
  Each of the three handlers, started in any state, has emptied the three slots when it
  sends its request. When the pending call of an action fails, the three slots are empty
  afterwards.
\<close>

theorem one_result_at_a_time:
  assumes "ag = agent_run languages locale evs agent_init"
  shows "results_shown ag \<le> 1
    \<and> (loadingResponse ag \<longrightarrow> results_shown ag = 0)
    \<and> (agent_calls (onQuerySubmit languages locale st) \<noteq> agent_calls st \<longrightarrow>
          results_shown (onQuerySubmit languages locale st) = 0)
    \<and> (agent_calls (handleMarketAnalysis languages locale st) \<noteq> agent_calls st \<longrightarrow>
          results_shown (handleMarketAnalysis languages locale st) = 0)
    \<and> (agent_calls (handlePostHarvestHelp languages locale yield st) \<noteq> agent_calls st \<longrightarrow>
          results_shown (handlePostHarvestHelp languages locale yield st) = 0)
    \<and> (i < length (agent_pending ag) \<and> agent_pending ag ! i = AwaitAgent \<longrightarrow>
          results_shown (agent_step languages locale (AgentSettled i (Inl e)) ag) = 0)
    \<and> (i < length (agent_pending ag) \<and> agent_pending ag ! i = AwaitMarket \<longrightarrow>
          results_shown (agent_step languages locale (MarketSettled i (Inl e)) ag) = 0)
    \<and> (i < length (agent_pending ag) \<and> agent_pending ag ! i = AwaitPostHarvest \<longrightarrow>
          results_shown (agent_step languages locale (PostHarvestSettled i (Inl e)) ag) = 0)"
proof -
  have inv: "one_action ag"
    unfolding assms by (rule one_action_run [OF one_action_init])
  have a: "results_shown ag \<le> 1" and b: "loadingResponse ag \<longrightarrow> results_shown ag = 0"
    using inv by (auto simp: one_action_def split: if_splits)
  from a b clears_before_call(1) [of languages "locale" st]
    clears_before_call(2) [of languages "locale" st]
    clears_before_call(3) [of languages "locale" yield st]
    failure_shows_nothing(1) [OF inv, of i languages "locale" e]
    failure_shows_nothing(2) [OF inv, of i languages "locale" e]
    failure_shows_nothing(3) [OF inv, of i languages "locale" e]
  show ?thesis by blast
qed

theorem one_result_at_a_time_witness:
  "results_shown market_shown = 1
   \<and> results_shown (onQuerySubmit english (js ''en'') market_shown) = 0
   \<and> results_shown (handleMarketAnalysis english (js ''en'') market_shown) = 0
   \<and> results_shown (handlePostHarvestHelp english (js ''en'') (js ''10 tonnes'') market_shown) = 0
   \<and> agent_pending (agent_step english (js ''en'') ClickAskAgent market_shown) = [AwaitAgent]
   \<and> results_shown (agent_step english (js ''en'') (AgentSettled 0 (Inl (Error (js ''timeout''))))
         (agent_step english (js ''en'') ClickAskAgent market_shown)) = 0
   \<and> agent_pending (agent_step english (js ''en'') ClickMarketAnalysis market_shown)
        = [AwaitMarket]
   \<and> results_shown (agent_step english (js ''en'') (MarketSettled 0 (Inl (Error (js ''timeout''))))
         (agent_step english (js ''en'') ClickMarketAnalysis market_shown)) = 0
   \<and> agent_pending (agent_step english (js ''en'') (SubmitPostHarvest (js ''10 tonnes''))
         market_shown) = [AwaitPostHarvest]
   \<and> results_shown (agent_step english (js ''en'')
         (PostHarvestSettled 0 (Inl (Error (js ''timeout''))))
         (agent_step english (js ''en'') (SubmitPostHarvest (js ''10 tonnes'')) market_shown)) = 0"
proof -
  let ?L = english and ?l = "js ''en''" and ?e = "Error (js ''timeout'')"
  let ?ask = "agent_step ?L ?l ClickAskAgent market_shown"
  let ?mkt = "agent_step ?L ?l ClickMarketAnalysis market_shown"
  let ?hrv = "agent_step ?L ?l (SubmitPostHarvest (js ''10 tonnes'')) market_shown"
  have r: "results_shown market_shown = 1" by code_simp
  have c1: "agent_calls (onQuerySubmit ?L ?l market_shown) \<noteq> agent_calls market_shown"
    by code_simp
  have c2: "agent_calls (handleMarketAnalysis ?L ?l market_shown) \<noteq> agent_calls market_shown"
    by code_simp
  have c3: "agent_calls (handlePostHarvestHelp ?L ?l (js ''10 tonnes'') market_shown)
              \<noteq> agent_calls market_shown"
    by code_simp
  have p1: "agent_pending ?ask = [AwaitAgent]" by code_simp
  have p2: "agent_pending ?mkt = [AwaitMarket]" by code_simp
  have p3: "agent_pending ?hrv = [AwaitPostHarvest]" by code_simp
  have e1: "?ask = agent_run ?L ?l (question_typed @ [ClickAskAgent]) agent_init"
    by (simp add: agent_run_def market_shown_def)
  have e2: "?mkt = agent_run ?L ?l (question_typed @ [ClickMarketAnalysis]) agent_init"
    by (simp add: agent_run_def market_shown_def)
  have e3: "?hrv = agent_run ?L ?l (question_typed @ [SubmitPostHarvest (js ''10 tonnes'')])
                     agent_init"
    by (simp add: agent_run_def market_shown_def)
  show ?thesis
    using r c1 c2 c3 p1 p2 p3
      one_result_at_a_time [OF e1, of market_shown "js ''10 tonnes''" 0 ?e]
      one_result_at_a_time [OF e2, of market_shown "js ''10 tonnes''" 0 ?e]
      one_result_at_a_time [OF e3, of market_shown "js ''10 tonnes''" 0 ?e]
    by simp
qed

subsection \<open>Blank and short input\<close>

lemma short_query_no_call:
  assumes "query st = None \<or> (\<exists>q. query st = Some q \<and> length (trim q) < 5)"
  shows "agent_calls (onQuerySubmit languages locale st) = agent_calls st
       \<and> agent_pending (onQuerySubmit languages locale st) = agent_pending st
       \<and> loadingResponse (onQuerySubmit languages locale st) = loadingResponse st"
  using assms
  by (auto simp: onQuerySubmit_def getSelectedCrop_def clearResults_def Let_def
      split: option.splits)

lemma short_query_field_error:
  assumes "getSelectedCrop st = (Some c, st)"
    and "query st = None \<or> (\<exists>q. query st = Some q \<and> length (trim q) < 5)"
  shows "onQuerySubmit languages locale st = st\<lparr>query_error := Some query_too_short\<rparr>"
  using assms by (auto simp: onQuerySubmit_def split: option.splits)

text \<open>
  Claim C10: \<^verbatim>\<open>handleSubmit\<close> with an input that is empty or all white space leaves the
  state, and with it the messages and the requests sent, as it is. \<^verbatim>\<open>onQuerySubmit\<close>
  with no question, or with one that has fewer than five characters once trimmed (so with
  every question of fewer than five characters), sends nothing in any state; and in every
  state \<open>ag\<close> that the crop agent reaches from its initial state, a click on the enabled
  Ask Agent button then sets the error of the \<^verbatim>\<open>query\<close> field and changes nothing else.
\<close>

theorem blank_or_short_input_rejected:
  assumes "ag = agent_run languages locale evs agent_init"
  shows "(trim (input st) = [] \<longrightarrow> handleSubmit languages locale st = st)
    \<and> (trim s = []) = (\<forall>c\<in>set s. isWhiteSpace c)
    \<and> length (trim s) \<le> length s
    \<and> (query st' = None \<or> (\<exists>q. query st' = Some q \<and> length (trim q) < 5) \<longrightarrow>
          agent_calls (onQuerySubmit languages locale st') = agent_calls st'
          \<and> agent_pending (onQuerySubmit languages locale st') = agent_pending st'
          \<and> loadingResponse (onQuerySubmit languages locale st') = loadingResponse st')
    \<and> (\<not> action_disabled ag
         \<and> (query ag = None \<or> (\<exists>q. query ag = Some q \<and> length (trim q) < 5)) \<longrightarrow>
          agent_step languages locale ClickAskAgent ag
            = ag\<lparr>query_error := Some query_too_short\<rparr>)"
proof -
  have a: "trim (input st) = [] \<longrightarrow> handleSubmit languages locale st = st"
    by (simp add: handleSubmit_def)
  have sel: "crop_selected ag"
    unfolding assms by (rule crop_selected_run [OF crop_selected_init])
  have e: "\<not> action_disabled ag
         \<and> (query ag = None \<or> (\<exists>q. query ag = Some q \<and> length (trim q) < 5)) \<longrightarrow>
          agent_step languages locale ClickAskAgent ag
            = ag\<lparr>query_error := Some query_too_short\<rparr>"
  proof
    assume h: "\<not> action_disabled ag
         \<and> (query ag = None \<or> (\<exists>q. query ag = Some q \<and> length (trim q) < 5))"
    then obtain c where "getSelectedCrop ag = (Some c, ag)"
      using find_selected [OF sel] by blast
    with h show "agent_step languages locale ClickAskAgent ag
            = ag\<lparr>query_error := Some query_too_short\<rparr>"
      using short_query_field_error [of ag c languages "locale"] by simp
  qed
  from a trim_Nil_iff [of s] trim_length [of s]
    short_query_no_call [of st' languages "locale"] e
  show ?thesis by blast
qed

theorem blank_or_short_input_rejected_witness:
  "trim (input (chat_init\<lparr>input := js ''   ''\<rparr>)) = []
   \<and> handleSubmit english (js ''en'') (chat_init\<lparr>input := js ''   ''\<rparr>)
       = chat_init\<lparr>input := js ''   ''\<rparr>
   \<and> query (agent_run english (js ''en'') short_question agent_init) = Some (js ''hey'')
   \<and> \<not> action_disabled (agent_run english (js ''en'') short_question agent_init)
   \<and> agent_step english (js ''en'') ClickAskAgent
        (agent_run english (js ''en'') short_question agent_init)
       = (agent_run english (js ''en'') short_question agent_init)
           \<lparr>query_error := Some query_too_short\<rparr>"
proof -
  have a: "trim (input (chat_init\<lparr>input := js ''   ''\<rparr>)) = []" by code_simp
  have b: "query (agent_run english (js ''en'') short_question agent_init) = Some (js ''hey'')"
    by code_simp
  have c: "\<not> action_disabled (agent_run english (js ''en'') short_question agent_init)"
    by code_simp
  have d: "length (trim (js ''hey'')) < 5" by code_simp
  show ?thesis
    using a b c d
      blank_or_short_input_rejected
        [of "agent_run english (js ''en'') short_question agent_init" english "js ''en''"
          short_question "chat_init\<lparr>input := js ''   ''\<rparr>" "[]"
          "agent_run english (js ''en'') short_question agent_init"]
    by simp
qed

end
